theory Spec2Isabelle
  imports Complex_Main "HOL-Library.AList"
begin

section \<open>Python values, exceptions and library functions used by the source\<close>

text \<open>
  Values read from the YAML configuration and passed on as prompts are untyped in the
  source; they are modelled by a small universe of Python values.
\<close>

datatype pyval = PNone | PBool bool | PInt int | PNum rat | PStr string | PList "pyval list"

datatype exn =
    ValueError
  | AttributeError
  | AssertionError
  | KeyError string
  | SystemExit nat
  | OSError
  | ExternalError string

text \<open>
  Texts handed to the logger. The source builds them with f-strings, mostly with non-ASCII
  characters; each constructor stands for one f-string of the source and carries the
  values interpolated into it. \<open>Text\<close> carries a plain ASCII string.
\<close>

datatype message =
    Text string
  | LevelUnchanged string         \<comment> \<open>log_mode.py line 192\<close>
  | LevelUpdated string           \<comment> \<open>log_mode.py lines 201-203\<close>
  | LoadStart                     \<comment> \<open>predict.py line 30\<close>
  | ModeImage string              \<comment> \<open>predict.py line 32\<close>
  | ModeVideo string pyval        \<comment> \<open>predict.py line 35\<close>
  | ModeDyn string                \<comment> \<open>predict.py line 41\<close>
  | ModelPath pyval               \<comment> \<open>predict.py line 42\<close>
  | LoadDone                      \<comment> \<open>predict.py line 49, elapsed time left out\<close>
  | CallStart                     \<comment> \<open>predict.py line 56\<close>
  | CallInput pyval               \<comment> \<open>predict.py line 57\<close>
  | CallBboxes pyval              \<comment> \<open>predict.py line 58\<close>
  | CallPoints pyval              \<comment> \<open>predict.py line 59\<close>
  | CallLabels pyval              \<comment> \<open>predict.py line 60\<close>
  | Released                      \<comment> \<open>predict.py line 65\<close>
  | Rule                          \<comment> \<open>predict.py lines 180, 182, 185, 187, 190\<close>
  | ArgsHeader                    \<comment> \<open>predict.py line 181\<close>
  | ArgLine string pyval          \<comment> \<open>predict.py line 184\<close>
  | ConfigHeader                  \<comment> \<open>predict.py line 186\<close>
  | ConfigLine string pyval       \<comment> \<open>predict.py line 189\<close>
  | InferStart                    \<comment> \<open>predict.py line 193\<close>
  | InferDone nat                 \<comment> \<open>predict.py line 195\<close>
  | MultipleResults string        \<comment> \<open>predict.py line 200\<close>
  | NoSamples                     \<comment> \<open>predict.py line 202\<close>

text \<open>
  The text of a message, where the model has it: a \<open>Text\<close> is its string. The other
  messages print values with Python's \<open>str\<close>, floats and types among them, and their
  text is not modelled.
\<close>

definition message_text :: "message \<Rightarrow> string option" where
  "message_text m = (case m of Text s \<Rightarrow> Some s | _ \<Rightarrow> None)"

subsection \<open>\<open>str.upper\<close>, \<open>str(int)\<close>, \<open>time.strftime\<close>, \<open>os.path.join\<close>\<close>

text \<open>
  Level names are ASCII strings; on ASCII, Python's \<open>str.upper\<close> maps exactly the letters
  \<open>a\<close> to \<open>z\<close> to \<open>A\<close> to \<open>Z\<close> and leaves every other character alone.
\<close>

definition upper_char :: "char \<Rightarrow> char" where
  "upper_char c =
     (case map_of (zip ''abcdefghijklmnopqrstuvwxyz'' ''ABCDEFGHIJKLMNOPQRSTUVWXYZ'') c of
        None \<Rightarrow> c
      | Some u \<Rightarrow> u)"

definition upper :: "string \<Rightarrow> string" where
  "upper s = map upper_char s"

definition digit_char :: "nat \<Rightarrow> char" where
  "digit_char n = ''0123456789'' ! n"

fun str_nat :: "nat \<Rightarrow> string" where
  "str_nat n = (if n < 10 then [digit_char n] else str_nat (n div 10) @ [digit_char (n mod 10)])"

declare str_nat.simps [simp del]

text \<open>
  The clock is read by \<open>time.strftime("%Y-%m-%d")\<close>; a reading is a calendar date, printed
  as the year, the month on two digits and the day on two digits.
\<close>

record date =
  year :: nat
  month :: nat
  day :: nat

definition pad2 :: "nat \<Rightarrow> string" where
  "pad2 n = (if n < 10 then CHR ''0'' # str_nat n else str_nat n)"

definition strftime_ymd :: "date \<Rightarrow> string" where
  "strftime_ymd d = str_nat (year d) @ ''-'' @ pad2 (month d) @ ''-'' @ pad2 (day d)"

text \<open>
  \<open>os.path.join\<close> with two arguments, as \<open>posixpath\<close> defines it: an absolute second
  component replaces the first one; otherwise the components are concatenated, with a
  separator unless the first one is empty or already ends with one.
\<close>

definition startswith_sep :: "string \<Rightarrow> bool" where
  "startswith_sep b = (case b of [] \<Rightarrow> False | c # _ \<Rightarrow> c = CHR ''/'')"

definition endswith_sep :: "string \<Rightarrow> bool" where
  "endswith_sep a = (case rev a of [] \<Rightarrow> False | c # _ \<Rightarrow> c = CHR ''/'')"

definition os_path_join :: "string \<Rightarrow> string \<Rightarrow> string" where
  "os_path_join a b =
     (if startswith_sep b then b
      else if a = [] \<or> endswith_sep a then a @ b
      else a @ ''/'' @ b)"

section \<open>The logging library as the source uses it\<close>

text \<open>
  The source drives the \<open>loguru\<close> logger through \<open>add\<close>, \<open>remove\<close>, \<open>bind\<close> and the
  level methods. A handler has a sink, a minimum level and a filter; handler ids come from
  a counter that is never reset; a record reaches a handler's sink when its level number is
  at least the number of the handler's level and the filter holds. Every filter of the
  source is \<open>record["extra"].get("category") == self.category\<close>, so a handler stores the
  category it compares with; a handler added by other code without a filter stores \<open>None\<close>.

  The format of a handler is a template string, or a function that is called with the
  record and returns the template; of the record such a function is given what the one of
  the source reads: the time as printed by \<open>strftime('%Y-%m-%d %H:%M:%S')\<close>, the name of
  the module that logged, the name of the level and the message.
\<close>

datatype sink = FileSink string | ConsoleSink

datatype fmt =
    FormatString string
  | Callable "string \<Rightarrow> string \<Rightarrow> string \<Rightarrow> string \<Rightarrow> string"

record handler =
  h_sink :: sink
  h_level :: string
  h_format :: fmt
  h_filter_category :: "string option"
  h_rotation :: "string option"
  h_retention :: "nat option"
  h_encoding :: "string option"

record log_record =
  r_level :: string
  r_levelno :: nat
  r_message :: message
  r_extra_category :: "string option"

text \<open>
  The part of the world the program acts on: the logger's handlers and id counter, what
  was printed on the console, what was written to which file, the directories created,
  the calls made to the segmentation model and the results saved. Three more fields hold
  what the program only reads: the time and the module name the logger stamps records
  with, and what the logger does with a template that the model of templates below does
  not decide.
\<close>

datatype model_wrapper =
    SAM pyval
  | SAM2VideoPredictor "(string \<times> pyval) list"
  | SAM2DynamicInteractivePredictor "(string \<times> pyval) list" nat

record model_call =
  mc_model :: model_wrapper
  mc_source :: pyval
  mc_kwargs :: "(string \<times> pyval) list"

datatype result = Result nat

record world =
  handlers :: "(nat \<times> handler) list"
  next_id :: nat
  console :: "log_record list"
  files :: "(string \<times> log_record) list"
  dirs :: "string list"
  model_calls :: "model_call list"
  saved :: "(result \<times> pyval) list"
  stamp :: string
  caller :: string
  formats_other :: "log_record \<Rightarrow> bool"

definition loguru_levels :: "(string \<times> nat) list" where
  "loguru_levels =
     [(''TRACE'', 5), (''DEBUG'', 10), (''INFO'', 20), (''SUCCESS'', 25),
      (''WARNING'', 30), (''ERROR'', 40), (''CRITICAL'', 50)]"

definition level_no :: "string \<Rightarrow> nat option" where
  "level_no name = map_of loguru_levels name"

definition log_remove_all :: "world \<Rightarrow> world" where
  "log_remove_all w = w\<lparr>handlers := []\<rparr>"

definition log_remove :: "nat \<Rightarrow> world \<Rightarrow> exn + world" where
  "log_remove i w =
     (if i \<in> fst ` set (handlers w)
      then Inr (w\<lparr>handlers := filter (\<lambda>p. fst p \<noteq> i) (handlers w)\<rparr>)
      else Inl ValueError)"

definition log_add :: "handler \<Rightarrow> world \<Rightarrow> (exn + nat) \<times> world" where
  "log_add h w =
     (let i = next_id w; w1 = w\<lparr>next_id := i + 1\<rparr>
      in case level_no (h_level h) of
           None \<Rightarrow> (Inl ValueError, w1)
         | Some _ \<Rightarrow> (Inr i, w1\<lparr>handlers := handlers w1 @ [(i, h)]\<rparr>))"

definition accepts :: "handler \<Rightarrow> log_record \<Rightarrow> bool" where
  "accepts h r =
     (case level_no (h_level h) of
        None \<Rightarrow> False
      | Some n \<Rightarrow>
          n \<le> r_levelno r \<and>
          (case h_filter_category h of
             None \<Rightarrow> True
           | Some c \<Rightarrow> r_extra_category r = Some c))"

text \<open>
  Before a handler writes a record, the logger formats the handler's template against the
  record with \<open>str.format_map\<close>, after it has taken the colour tags \<open><...>\<close> out of the
  literal text; when that raises, the handler catches the exception, reports it on the
  standard error, and writes nothing to its sink. A template string has the line
  \<open>{exception}\<close> appended when the handler is added; the template a function returns is
  taken as it is.

  The scan below follows the parser of \<open>str.format\<close> over a template: \<open>{{\<close> and \<open>}}\<close>
  are literal braces, any other \<open>{\<close> opens a replacement field, whose name runs up to
  \<open>}\<close>, \<open>:\<close>, \<open>!\<close> or \<open>[\<close>, and any other \<open>}\<close> is an error. The first part of the name,
  up to a dot, is looked up among the keys of the record. Three verdicts come out:
  \<^item> \<open>Fails\<close>: the braces are malformed, or a field names no key of the record (an
    empty or numeric name is positional, and \<open>format_map\<close> has no positional argument):
    formatting raises;
  \<^item> \<open>Formats\<close>: every field is the bare name of a key, or the time with a format free
    of braces and of \<open>%\<close>, and the template has no \<open><\<close>: formatting succeeds;
  \<^item> \<open>Unmodelled\<close>: anything else (attributes, indices, conversions, formats of other
    keys, a possible colour tag): the world says what the logger does.
\<close>

definition record_keys :: "string list" where
  "record_keys =
     [''elapsed'', ''exception'', ''extra'', ''file'', ''function'', ''level'', ''line'',
      ''message'', ''module'', ''name'', ''process'', ''thread'', ''time'']"

datatype verdict = Formats | Fails | Unmodelled

datatype scan = InText | Opened | Closed | InName string | InTimeSpec | Broken | Beyond

definition known :: "string \<Rightarrow> bool" where
  "known nm = (takeWhile (\<lambda>c. c \<noteq> CHR ''.'') nm \<in> set record_keys)"

definition name_char :: "string \<Rightarrow> char \<Rightarrow> scan" where
  "name_char nm c =
     (if c = CHR ''}'' then
        (if nm \<in> set record_keys then InText else if known nm then Beyond else Broken)
      else if c = CHR ''{'' then Broken
      else if c = CHR '':'' then
        (if nm = ''time'' then InTimeSpec else if known nm then Beyond else Broken)
      else if c = CHR ''!'' \<or> c = CHR ''['' then (if known nm then Beyond else Broken)
      else InName (nm @ [c]))"

fun scan_char :: "scan \<Rightarrow> char \<Rightarrow> scan" where
  "scan_char InText c =
     (if c = CHR ''{'' then Opened else if c = CHR ''}'' then Closed else InText)"
| "scan_char Opened c = (if c = CHR ''{'' then InText else name_char [] c)"
| "scan_char Closed c = (if c = CHR ''}'' then InText else Broken)"
| "scan_char (InName nm) c = name_char nm c"
| "scan_char InTimeSpec c =
     (if c = CHR ''}'' then InText
      else if c = CHR ''{'' \<or> c = CHR ''%'' then Beyond
      else InTimeSpec)"
| "scan_char Broken c = Broken"
| "scan_char Beyond c = Beyond"

definition template_verdict :: "string \<Rightarrow> verdict" where
  "template_verdict t =
     (case foldl scan_char InText t of
        InText \<Rightarrow> (if CHR ''<'' \<in> set t then Unmodelled else Formats)
      | Beyond \<Rightarrow> Unmodelled
      | _ \<Rightarrow> Fails)"

definition decide :: "world \<Rightarrow> log_record \<Rightarrow> verdict \<Rightarrow> bool" where
  "decide w r v = (case v of Formats \<Rightarrow> True | Fails \<Rightarrow> False | Unmodelled \<Rightarrow> formats_other w r)"

definition formats :: "world \<Rightarrow> fmt \<Rightarrow> log_record \<Rightarrow> bool" where
  "formats w f r =
     (case f of
        FormatString t \<Rightarrow> decide w r (template_verdict (t @ [CHR 0x0A] @ ''{exception}''))
      | Callable g \<Rightarrow>
          (case message_text (r_message r) of
             None \<Rightarrow> formats_other w r
           | Some txt \<Rightarrow> decide w r (template_verdict (g (stamp w) (caller w) (r_level r) txt))))"

fun write_sink :: "sink \<Rightarrow> log_record \<Rightarrow> world \<Rightarrow> world" where
  "write_sink (FileSink p) r w = w\<lparr>files := files w @ [(p, r)]\<rparr>"
| "write_sink ConsoleSink r w = w\<lparr>console := console w @ [r]\<rparr>"

text \<open>
  What a sink receives is kept as the record it was formatted from; the layout of the line
  is not kept.
\<close>

definition deliver :: "log_record \<Rightarrow> nat \<times> handler \<Rightarrow> world \<Rightarrow> world" where
  "deliver r p w =
     (if accepts (snd p) r \<and> formats w (h_format (snd p)) r
      then write_sink (h_sink (snd p)) r w
      else w)"

definition emit :: "log_record \<Rightarrow> world \<Rightarrow> world" where
  "emit r w = fold (deliver r) (handlers w) w"

text \<open>\<open>log.bind(category=c).<level>(msg)\<close> for one of the level methods.\<close>

definition bind_log :: "string \<Rightarrow> string \<Rightarrow> nat \<Rightarrow> message \<Rightarrow> world \<Rightarrow> world" where
  "bind_log c lvl n msg w =
     emit \<lparr>r_level = lvl, r_levelno = n, r_message = msg, r_extra_category = Some c\<rparr> w"

text \<open>
  \<open>os.makedirs(p, exist_ok=True)\<close>: the empty path is refused; any other directory is
  taken to be creatable, and is recorded.
\<close>

definition makedirs :: "string \<Rightarrow> world \<Rightarrow> exn + world" where
  "makedirs p w = (if p = [] then Inl OSError else Inr (w\<lparr>dirs := List.insert p (dirs w)\<rparr>))"

section \<open>tools/log\_mode.py\<close>

subsection \<open>\<open>Color\<close>\<close>

definition BLUE :: string where
  "BLUE = CHR 0x1B # ''[94m''"

definition GREEN :: string where
  "GREEN = CHR 0x1B # ''[92m''"

definition RED :: string where
  "RED = CHR 0x1B # ''[91m''"

definition YELLOW :: string where
  "YELLOW = CHR 0x1B # ''[93m''"

definition BOLD :: string where
  "BOLD = CHR 0x1B # ''[1m''"

definition RESET :: string where
  "RESET = CHR 0x1B # ''[0m''"

definition RED_BOLD :: string where
  "RED_BOLD = RED @ BOLD"

subsection \<open>\<open>LogConfig\<close>\<close>

definition MAX_ROTATION_MB :: nat where
  "MAX_ROTATION_MB = 200"

definition LOG_FORMAT :: string where
  "LOG_FORMAT = ''{time:YYYY-MM-DD HH:mm:ss} - {name} - {level} - {message}''"

definition BACKUP_COUNT :: nat where
  "BACKUP_COUNT = 5"

definition ENCODING :: string where
  "ENCODING = ''utf-8''"

definition VALID_LEVELS :: "string list" where
  "VALID_LEVELS = [''DEBUG'', ''INFO'', ''WARNING'', ''ERROR'']"

definition LEVEL_PRIORITY :: "(string \<times> nat) list" where
  "LEVEL_PRIORITY = [(''DEBUG'', 0), (''INFO'', 1), (''WARNING'', 2), (''ERROR'', 3)]"

definition COLOR_MAP :: "(string \<times> string) list" where
  "COLOR_MAP =
     [(''DEBUG'', BLUE), (''INFO'', GREEN), (''WARNING'', YELLOW), (''ERROR'', RED_BOLD),
      (''RESET'', RESET)]"

subsection \<open>\<open>LogManager\<close>\<close>

record LogManager =
  log_path :: string
  run_mode :: string
  category :: string
  file_handlers :: "(string \<times> nat) list"
  console_handler_id :: "nat option"

text \<open>
  A method that may raise returns the exception or the value, together with the manager
  and the world as they are at that moment. The filters of the source read
  \<open>self.category\<close> when a record arrives; no method assigns \<open>category\<close> after the
  constructor, so a handler can keep the value it had when the handler was added. The
  category is a string, the name of a business module as the docstring has it.
\<close>

type_synonym outcome = "(exn + unit) \<times> LogManager \<times> world"

definition and_then :: "outcome \<Rightarrow> (LogManager \<Rightarrow> world \<Rightarrow> outcome) \<Rightarrow> outcome" where
  "and_then r f = (case r of (Inl e, self, w) \<Rightarrow> (Inl e, self, w) | (Inr _, self, w) \<Rightarrow> f self w)"

text \<open>
  \<open>_get_log_file_path\<close>; \<open>today\<close> is what the clock gives at this call. The two paths
  it computes are named, the effects on the file system follow.
\<close>

definition date_dir :: "string \<Rightarrow> date \<Rightarrow> string" where
  "date_dir lp today = os_path_join lp (strftime_ymd today)"

definition file_name :: "string \<Rightarrow> string \<Rightarrow> string \<Rightarrow> date \<Rightarrow> string" where
  "file_name lp cat mode today =
     os_path_join (date_dir lp today) (cat @ ''_'' @ mode @ ''_'' @ strftime_ymd today @ ''.log'')"

definition get_log_file_path ::
  "LogManager \<Rightarrow> string \<Rightarrow> date \<Rightarrow> world \<Rightarrow> (exn + string) \<times> world" where
  "get_log_file_path self mode today w =
     (case makedirs (date_dir (log_path self) today) w of
        Inl e \<Rightarrow> (Inl e, w)
      | Inr w1 \<Rightarrow>
          if date_dir (log_path self) today \<in> set (dirs w1)
          then (Inr (file_name (log_path self) (category self) mode today), w1)
          else (Inl AssertionError, w1))"

text \<open>The arguments of \<open>log.add\<close> for a file sink; \<open>cat\<close> is \<open>self.category\<close>.\<close>

definition file_handler :: "string \<Rightarrow> string \<Rightarrow> string \<Rightarrow> handler" where
  "file_handler cat path lvl =
     \<lparr>h_sink = FileSink path,
      h_level = lvl,
      h_format = FormatString LOG_FORMAT,
      h_filter_category = Some cat,
      h_rotation = Some (str_nat MAX_ROTATION_MB @ '' MB''),
      h_retention = Some BACKUP_COUNT,
      h_encoding = Some ENCODING\<rparr>"

text \<open>
  One of the four blocks of \<open>_config_file_handlers\<close>: remove the handler registered under
  the key, if any, then add a file handler for the level and register its id.
\<close>

definition config_file_handler ::
  "string \<Rightarrow> string \<Rightarrow> date \<Rightarrow> LogManager \<Rightarrow> world \<Rightarrow> outcome" where
  "config_file_handler key lvl today self w =
     (case (case map_of (file_handlers self) key of
              None \<Rightarrow> Inr w
            | Some i \<Rightarrow> log_remove i w) of
        Inl e \<Rightarrow> (Inl e, self, w)
      | Inr w1 \<Rightarrow>
          (case get_log_file_path self key today w1 of
             (Inl e, w2) \<Rightarrow> (Inl e, self, w2)
           | (Inr path, w2) \<Rightarrow>
               (case log_add (file_handler (category self) path lvl) w2 of
                  (Inl e, w3) \<Rightarrow> (Inl e, self, w3)
                | (Inr i, w3) \<Rightarrow>
                    (Inr (), self\<lparr>file_handlers := AList.update key i (file_handlers self)\<rparr>, w3))))"

definition config_file_handlers ::
  "date \<times> date \<times> date \<times> date \<Rightarrow> LogManager \<Rightarrow> world \<Rightarrow> outcome" where
  "config_file_handlers clock self w =
     (case clock of (t1, t2, t3, t4) \<Rightarrow>
        and_then (config_file_handler ''error'' ''ERROR'' t1 self w) (\<lambda>self w.
        and_then (config_file_handler ''warning'' ''WARNING'' t2 self w) (\<lambda>self w.
        and_then (config_file_handler ''info'' ''INFO'' t3 self w)
          (config_file_handler ''debug'' ''DEBUG'' t4))))"

text \<open>
  \<open>colored_format\<close>, the format function of the console handler. It returns the line
  itself, the message included, and the logger takes what it returns for a template.
\<close>

definition colored_format :: "string \<Rightarrow> string \<Rightarrow> string \<Rightarrow> string \<Rightarrow> string" where
  "colored_format tm nm level msg =
     (let color = (case map_of COLOR_MAP level of None \<Rightarrow> RESET | Some c \<Rightarrow> c);
          reset = RESET;
          log_content = tm @ '' - '' @ nm @ '' - '' @ level @ '' - '' @ msg
      in if level \<in> set [''WARNING'', ''ERROR'']
         then color @ log_content @ reset @ [CHR 0x0A]
         else tm @ '' - '' @ nm @ '' - '' @ color @ level @ reset @ '' - '' @ msg @ [CHR 0x0A])"

definition console_handler :: "LogManager \<Rightarrow> handler" where
  "console_handler self =
     \<lparr>h_sink = ConsoleSink,
      h_level = run_mode self,
      h_format = Callable colored_format,
      h_filter_category = Some (category self),
      h_rotation = None,
      h_retention = None,
      h_encoding = None\<rparr>"

definition config_console_handler :: "LogManager \<Rightarrow> world \<Rightarrow> outcome" where
  "config_console_handler self w =
     (case (case console_handler_id self of
              None \<Rightarrow> Inr w
            | Some i \<Rightarrow> log_remove i w) of
        Inl e \<Rightarrow> (Inl e, self, w)
      | Inr w1 \<Rightarrow>
          (case log_add (console_handler self) w1 of
             (Inl e, w2) \<Rightarrow> (Inl e, self, w2)
           | (Inr i, w2) \<Rightarrow> (Inr (), self\<lparr>console_handler_id := Some i\<rparr>, w2)))"

text \<open>\<open>__init__\<close>; \<open>clock\<close> holds the four readings of the clock it makes.\<close>

definition LogManager_init ::
  "string \<Rightarrow> string \<Rightarrow> string \<Rightarrow> date \<times> date \<times> date \<times> date \<Rightarrow> world
     \<Rightarrow> (exn + LogManager) \<times> world" where
  "LogManager_init lp rm cat clock w =
     (let rm = upper rm
      in if rm \<notin> set VALID_LEVELS then (Inl ValueError, w)
         else
           let self = \<lparr>log_path = lp, run_mode = rm, category = cat,
                        file_handlers = [], console_handler_id = None\<rparr>
           in case makedirs lp w of
                Inl e \<Rightarrow> (Inl e, w)
              | Inr w1 \<Rightarrow>
                  (case and_then (config_file_handlers clock self (log_remove_all w1))
                          config_console_handler of
                     (Inl e, _, w2) \<Rightarrow> (Inl e, w2)
                   | (Inr _, self, w2) \<Rightarrow> (Inr self, w2)))"

definition set_log_level :: "string \<Rightarrow> LogManager \<Rightarrow> world \<Rightarrow> outcome" where
  "set_log_level level self w =
     (let level = upper level
      in if level \<notin> set VALID_LEVELS then (Inl ValueError, self, w)
         else if run_mode self = level
         then (Inr (), self, bind_log (category self) ''INFO'' 20 (LevelUnchanged level) w)
         else
           (case config_console_handler (self\<lparr>run_mode := level\<rparr>) w of
              (Inl e, self, w1) \<Rightarrow> (Inl e, self, w1)
            | (Inr _, self, w1) \<Rightarrow>
                (Inr (), self, bind_log (category self) ''INFO'' 20 (LevelUpdated level) w1)))"

definition debug :: "LogManager \<Rightarrow> message \<Rightarrow> world \<Rightarrow> world" where
  "debug self msg w = bind_log (category self) ''DEBUG'' 10 msg w"

definition info :: "LogManager \<Rightarrow> message \<Rightarrow> world \<Rightarrow> world" where
  "info self msg w = bind_log (category self) ''INFO'' 20 msg w"

definition warning :: "LogManager \<Rightarrow> message \<Rightarrow> world \<Rightarrow> world" where
  "warning self msg w = bind_log (category self) ''WARNING'' 30 msg w"

definition error :: "LogManager \<Rightarrow> message \<Rightarrow> world \<Rightarrow> world" where
  "error self msg w = bind_log (category self) ''ERROR'' 40 msg w"

definition get_current_level :: "LogManager \<Rightarrow> string" where
  "get_current_level self = run_mode self"

text \<open>
  A client of a manager calls its public methods in any order; an exception raised by
  \<open>set_log_level\<close> is caught by the client, and the manager and the world stay as the
  raise left them.
\<close>

datatype call =
    SetLogLevel string
  | Debug message
  | Info message
  | Warning message
  | Error message

fun step :: "call \<Rightarrow> LogManager \<times> world \<Rightarrow> LogManager \<times> world" where
  "step (SetLogLevel l) (self, w) = snd (set_log_level l self w)"
| "step (Debug m) (self, w) = (self, debug self m w)"
| "step (Info m) (self, w) = (self, info self m w)"
| "step (Warning m) (self, w) = (self, warning self m w)"
| "step (Error m) (self, w) = (self, error self m w)"

definition run :: "call list \<Rightarrow> LogManager \<times> world \<Rightarrow> LogManager \<times> world" where
  "run cs s = fold step cs s"


section \<open>predict.py\<close>

subsection \<open>\<open>SAMPredictor\<close>\<close>

text \<open>
  The constructors of the external library are taken to succeed; the model they build is
  recorded with the arguments it was built from. The predictor keeps a reference to the
  log manager, of which it only reads the category.
\<close>

record SAMPredictor =
  log_manager :: "LogManager option"
  mode :: string
  model :: "model_wrapper option"

definition SAMPredictor_init ::
  "pyval \<Rightarrow> LogManager option \<Rightarrow> string \<Rightarrow> world \<Rightarrow> (exn + SAMPredictor) \<times> world" where
  "SAMPredictor_init model_path lmo md w =
     (case lmo of
        None \<Rightarrow> (Inl AttributeError, w)
      | Some lm \<Rightarrow>
          let w1 = debug lm LoadStart w;
              (m, w2) =
                (if md \<in> set [''image'', ''video2img'']
                 then (Some (SAM model_path), debug lm (ModeImage md) w1)
                 else if md = ''video''
                 then (Some (SAM2VideoPredictor
                         [(''conf'', PNum (25 / 100)), (''task'', PStr ''segment''),
                          (''mode'', PStr ''predict''), (''imgsz'', PInt 1024),
                          (''model'', model_path)]),
                       debug lm (ModeVideo md model_path) w1)
                 else if md = ''DynVideo''
                 then (Some (SAM2DynamicInteractivePredictor
                         [(''conf'', PNum (1 / 100)), (''task'', PStr ''segment''),
                          (''mode'', PStr ''predict''), (''imgsz'', PInt 1024),
                          (''model'', PStr ''sam2_t.pt''), (''save'', PBool False)] 10),
                       info lm (ModelPath model_path) (debug lm (ModeDyn md) w1))
                 else (None, w1))
          in (Inr \<lparr>log_manager = Some lm, mode = md, model = m\<rparr>, debug lm LoadDone w2))"

text \<open>
  \<open>__call__\<close>. What the library returns for a call is a parameter, \<open>lib\<close>; the call made
  is recorded with the keyword arguments the source passes.
\<close>

definition SAMPredictor_call ::
  "(model_call \<Rightarrow> exn + result list) \<Rightarrow> SAMPredictor \<Rightarrow> pyval \<Rightarrow> pyval \<Rightarrow> pyval \<Rightarrow> pyval
     \<Rightarrow> world \<Rightarrow> (exn + result list) \<times> world" where
  "SAMPredictor_call lib self input_data bboxes points labels w =
     (case log_manager self of
        None \<Rightarrow> (Inl AttributeError, w)
      | Some lm \<Rightarrow>
          let w1 = debug lm CallStart w;
              w2 = debug lm (CallInput input_data) w1;
              w3 = debug lm (CallBboxes bboxes) w2;
              w4 = debug lm (CallPoints points) w3;
              w5 = debug lm (CallLabels labels) w4
          in case model self of
               None \<Rightarrow> (Inl AttributeError, w5)
             | Some m \<Rightarrow>
                 let c = \<lparr>mc_model = m, mc_source = input_data,
                          mc_kwargs = [(''points'', points), (''labels'', labels)]\<rparr>
                 in (lib c, w5\<lparr>model_calls := model_calls w5 @ [c]\<rparr>))"

subsection \<open>\<open>parse_args\<close>\<close>

record args =
  arg_config :: string
  arg_log_level :: string
  arg_mode :: string

definition log_level_choices :: "string list" where
  "log_level_choices = [''DEBUG'', ''INFO'', ''WARNING'', ''ERROR'']"

definition mode_choices :: "string list" where
  "mode_choices = [''img'', ''video2img'', ''video'', ''DynVideo'']"

text \<open>
  Each option is given on the command line or not; a value outside the choices of its
  option makes \<open>argparse\<close> exit with status 2; an option not given takes its default.
\<close>

definition parse_args :: "string option \<Rightarrow> string option \<Rightarrow> string option \<Rightarrow> exn + args" where
  "parse_args cfg lvl md =
     (if (case lvl of None \<Rightarrow> False | Some l \<Rightarrow> l \<notin> set log_level_choices) then Inl (SystemExit 2)
      else if (case md of None \<Rightarrow> False | Some m \<Rightarrow> m \<notin> set mode_choices) then Inl (SystemExit 2)
      else Inr \<lparr>arg_config = (case cfg of None \<Rightarrow> ''./config/sam_2.yaml'' | Some c \<Rightarrow> c),
                arg_log_level = (case lvl of None \<Rightarrow> ''DEBUG'' | Some l \<Rightarrow> l),
                arg_mode = (case md of None \<Rightarrow> ''video2img'' | Some m \<Rightarrow> m)\<rparr>)"

subsection \<open>The main program\<close>

text \<open>\<open>config[key]\<close> on the dictionary read from the YAML file.\<close>

definition getitem :: "(string \<times> pyval) list \<Rightarrow> string \<Rightarrow> exn + pyval" where
  "getitem config key = (case map_of config key of None \<Rightarrow> Inl (KeyError key) | Some v \<Rightarrow> Inr v)"

text \<open>Lines 193 to 202: the inference call and what is done with its results.\<close>

definition main_inference ::
  "(model_call \<Rightarrow> exn + result list) \<Rightarrow> SAMPredictor \<Rightarrow> LogManager \<Rightarrow> (string \<times> pyval) list
     \<Rightarrow> args \<Rightarrow> world \<Rightarrow> (exn + unit) \<times> world" where
  "main_inference lib sam_predictor lm config a w =
     (let w1 = info lm InferStart w
      in case getitem config ''input_data_path'' of Inl e \<Rightarrow> (Inl e, w1) | Inr input_data \<Rightarrow>
         case getitem config ''bboxes'' of Inl e \<Rightarrow> (Inl e, w1) | Inr bboxes \<Rightarrow>
         case getitem config ''points'' of Inl e \<Rightarrow> (Inl e, w1) | Inr points \<Rightarrow>
         case getitem config ''labels'' of Inl e \<Rightarrow> (Inl e, w1) | Inr labels \<Rightarrow>
         case SAMPredictor_call lib sam_predictor input_data bboxes points labels w1 of
           (Inl e, w2) \<Rightarrow> (Inl e, w2)
         | (Inr results, w2) \<Rightarrow>
             let w3 = info lm (InferDone (length results)) w2
             in if length results = 1
                then (case getitem config ''output_data_path'' of
                        Inl e \<Rightarrow> (Inl e, w3)
                      | Inr out \<Rightarrow> (Inr (), w3\<lparr>saved := saved w3 @ [(results ! 0, out)]\<rparr>))
                else if length results > 1
                then (Inr (), warning lm (MultipleResults (arg_mode a)) w3)
                else (Inr (), error lm NoSamples w3))"

text \<open>
  Lines 170 to 202, once the arguments are parsed and the configuration is read:
  the log manager with its default arguments, its level, the predictor, the listing of
  arguments and configuration, the inference. The hardware report of line 177 goes to
  the standard output only and is left out.
\<close>

definition log_listing :: "LogManager \<Rightarrow> args \<Rightarrow> (string \<times> pyval) list \<Rightarrow> world \<Rightarrow> world" where
  "log_listing lm a config w =
     (let w1 = info lm ArgsHeader (info lm Rule w);
          w2 = fold (\<lambda>p. info lm (ArgLine (fst p) (snd p)))
                 [(''config'', PStr (arg_config a)), (''log_level'', PStr (arg_log_level a)),
                  (''mode'', PStr (arg_mode a))]
                 (info lm Rule w1);
          w3 = info lm Rule (info lm ConfigHeader (info lm Rule w2));
          w4 = fold (\<lambda>p. info lm (ConfigLine (fst p) (snd p))) config w3
      in info lm Rule w4)"

definition main ::
  "(model_call \<Rightarrow> exn + result list) \<Rightarrow> date \<times> date \<times> date \<times> date \<Rightarrow> args
     \<Rightarrow> (string \<times> pyval) list \<Rightarrow> world \<Rightarrow> (exn + unit) \<times> world" where
  "main lib clock a config w =
     (case LogManager_init ''./logs/'' ''INFO'' ''default'' clock w of
        (Inl e, w1) \<Rightarrow> (Inl e, w1)
      | (Inr lm0, w1) \<Rightarrow>
          (case set_log_level (arg_log_level a) lm0 w1 of
             (Inl e, _, w2) \<Rightarrow> (Inl e, w2)
           | (Inr _, lm, w2) \<Rightarrow>
               (case getitem config ''model_path'' of
                  Inl e \<Rightarrow> (Inl e, w2)
                | Inr model_path \<Rightarrow>
                    (case SAMPredictor_init model_path (Some lm) (arg_mode a) w2 of
                       (Inl e, w3) \<Rightarrow> (Inl e, w3)
                     | (Inr sam_predictor, w3) \<Rightarrow>
                         main_inference lib sam_predictor lm config a
                           (log_listing lm a config w3)))))"


section \<open>Notions used to state the properties\<close>

text \<open>The record a level method of a manager with category \<open>cat\<close> hands to the logger.\<close>

definition entry :: "string \<Rightarrow> string \<Rightarrow> message \<Rightarrow> log_record" where
  "entry cat sev msg =
     \<lparr>r_level = sev,
      r_levelno = (case level_no sev of None \<Rightarrow> 0 | Some n \<Rightarrow> n),
      r_message = msg,
      r_extra_category = Some cat\<rparr>"

text \<open>The level method of a severity, and the rank \<open>LogConfig.LEVEL_PRIORITY\<close> gives it.\<close>

definition log_at :: "string \<Rightarrow> LogManager \<Rightarrow> message \<Rightarrow> world \<Rightarrow> world" where
  "log_at sev =
     (if sev = ''DEBUG'' then debug
      else if sev = ''INFO'' then info
      else if sev = ''WARNING'' then warning
      else error)"

definition priority :: "string \<Rightarrow> nat" where
  "priority l = (case map_of LEVEL_PRIORITY l of None \<Rightarrow> 0 | Some p \<Rightarrow> p)"

text \<open>Which handlers a record reaches, by kind of sink.\<close>

definition console_hit :: "world \<Rightarrow> log_record \<Rightarrow> nat \<times> handler \<Rightarrow> bool" where
  "console_hit w r p =
     (accepts (snd p) r \<and> formats w (h_format (snd p)) r \<and> h_sink (snd p) = ConsoleSink)"

definition file_hit ::
  "world \<Rightarrow> log_record \<Rightarrow> nat \<times> handler \<Rightarrow> (string \<times> log_record) list" where
  "file_hit w r p =
     (if accepts (snd p) r \<and> formats w (h_format (snd p)) r
      then (case h_sink (snd p) of FileSink f \<Rightarrow> [(f, r)] | ConsoleSink \<Rightarrow> [])
      else [])"

definition is_file :: "nat \<times> handler \<Rightarrow> bool" where
  "is_file p = (h_sink (snd p) \<noteq> ConsoleSink)"

text \<open>
  The state a manager keeps the logger in: the four file handlers it added when it was
  built, with ids \<open>n\<close> to \<open>n + 3\<close>, followed by its console handler at the level of
  \<open>run_mode\<close>.
\<close>

definition file_part ::
  "string \<Rightarrow> string \<Rightarrow> date \<times> date \<times> date \<times> date \<Rightarrow> nat \<Rightarrow> (nat \<times> handler) list" where
  "file_part lp cat clock n =
     (case clock of (t1, t2, t3, t4) \<Rightarrow>
        [(n, file_handler cat (file_name lp cat ''error'' t1) ''ERROR''),
         (n + 1, file_handler cat (file_name lp cat ''warning'' t2) ''WARNING''),
         (n + 2, file_handler cat (file_name lp cat ''info'' t3) ''INFO''),
         (n + 3, file_handler cat (file_name lp cat ''debug'' t4) ''DEBUG'')])"

definition managed ::
  "string \<Rightarrow> string \<Rightarrow> date \<times> date \<times> date \<times> date \<Rightarrow> nat \<Rightarrow> LogManager \<Rightarrow> world \<Rightarrow> bool" where
  "managed lp cat clock n self w =
     (log_path self = lp \<and> category self = cat \<and> run_mode self \<in> set VALID_LEVELS \<and>
      file_handlers self =
        [(''error'', n), (''warning'', n + 1), (''info'', n + 2), (''debug'', n + 3)] \<and>
      (case console_handler_id self of
         None \<Rightarrow> False
       | Some c \<Rightarrow>
           n + 4 \<le> c \<and> c < next_id w \<and>
           handlers w = file_part lp cat clock n @ [(c, console_handler self)]))"

text \<open>The model a construction leaves in the predictor, and the constructor that built it.\<close>

definition constructed :: "(exn + SAMPredictor) \<times> world \<Rightarrow> model_wrapper option" where
  "constructed r = (case fst r of Inl _ \<Rightarrow> None | Inr p \<Rightarrow> model p)"

fun constructor_name :: "model_wrapper \<Rightarrow> string" where
  "constructor_name (SAM _) = ''SAM''"
| "constructor_name (SAM2VideoPredictor _) = ''SAM2VideoPredictor''"
| "constructor_name (SAM2DynamicInteractivePredictor _ _) = ''SAM2DynamicInteractivePredictor''"

text \<open>
  Concrete inputs: a day, a manager as its constructor leaves it in a fresh process, a
  configuration, and a world where nothing has happened yet.
\<close>

definition a_day :: date where
  "a_day = \<lparr>year = 2026, month = 11, day = 3\<rparr>"

definition a_manager :: LogManager where
  "a_manager =
     \<lparr>log_path = ''./logs/'', run_mode = ''DEBUG'', category = ''default'',
      file_handlers = [(''error'', 1), (''warning'', 2), (''info'', 3), (''debug'', 4)],
      console_handler_id = Some 5\<rparr>"

definition a_config :: "(string \<times> pyval) list" where
  "a_config =
     [(''model_path'', PStr ''sam2_b.pt''),
      (''input_data_path'', PStr ''./data/cat.jpg''),
      (''output_data_path'', PStr ''./output/''),
      (''bboxes'', PList [PList [PInt 10, PInt 20, PInt 30, PInt 40]]),
      (''points'', PNone),
      (''labels'', PNone)]"

definition fresh_world :: world where
  "fresh_world =
     \<lparr>handlers = [], next_id = 1, console = [], files = [], dirs = [],
      model_calls = [], saved = [],
      stamp = ''2026-11-03 09:30:00'', caller = ''tools.log_mode'',
      formats_other = (\<lambda>r. True)\<rparr>"

section \<open>Auxiliary facts\<close>

subsection \<open>The logger\<close>

lemma deliver_frame [simp]:
  "handlers (deliver r p w) = handlers w"
  "next_id (deliver r p w) = next_id w"
  "dirs (deliver r p w) = dirs w"
  "model_calls (deliver r p w) = model_calls w"
  "saved (deliver r p w) = saved w"
  "stamp (deliver r p w) = stamp w"
  "caller (deliver r p w) = caller w"
  "formats_other (deliver r p w) = formats_other w"
  by (cases "h_sink (snd p)"; simp add: deliver_def)+

lemma formats_cong:
  assumes "stamp w' = stamp w" and "caller w' = caller w"
    and "formats_other w' = formats_other w"
  shows "formats w' f r = formats w f r"
  using assms by (auto simp: formats_def decide_def split: fmt.splits option.splits verdict.splits)

lemma formats_deliver [simp]: "formats (deliver r' p w) f r = formats w f r"
  by (rule formats_cong) simp_all

lemma console_hit_deliver [simp]: "console_hit (deliver r' p' w) r p = console_hit w r p"
  by (simp add: console_hit_def)

lemma file_hit_deliver [simp]: "file_hit (deliver r' p' w) r p = file_hit w r p"
  by (simp add: file_hit_def)

lemma deliver_console:
  "console (deliver r p w) = console w @ (if console_hit w r p then [r] else [])"
  by (cases "h_sink (snd p)") (simp_all add: deliver_def console_hit_def)

lemma deliver_files:
  "files (deliver r p w) = files w @ file_hit w r p"
  by (cases "h_sink (snd p)") (simp_all add: deliver_def file_hit_def)

lemma fold_deliver_frame [simp]:
  "handlers (fold (deliver r) hs w) = handlers w"
  "next_id (fold (deliver r) hs w) = next_id w"
  "dirs (fold (deliver r) hs w) = dirs w"
  "model_calls (fold (deliver r) hs w) = model_calls w"
  "saved (fold (deliver r) hs w) = saved w"
  "stamp (fold (deliver r) hs w) = stamp w"
  "caller (fold (deliver r) hs w) = caller w"
  "formats_other (fold (deliver r) hs w) = formats_other w"
  by (induction hs arbitrary: w; simp)+

lemma formats_fold_deliver [simp]: "formats (fold (deliver r') hs w) f r = formats w f r"
  by (rule formats_cong) simp_all

lemma fold_deliver_console:
  "console (fold (deliver r) hs w) = console w @ map (\<lambda>_. r) (filter (console_hit w r) hs)"
proof (induction hs arbitrary: w)
  case Nil
  show ?case by simp
next
  case (Cons p hs)
  have "console_hit (deliver r p w) r = console_hit w r" by (rule ext) simp
  then show ?case by (simp add: Cons deliver_console)
qed

lemma fold_deliver_files:
  "files (fold (deliver r) hs w) = files w @ concat (map (file_hit w r) hs)"
proof (induction hs arbitrary: w)
  case Nil
  show ?case by simp
next
  case (Cons p hs)
  have "file_hit (deliver r p w) r = file_hit w r" by (rule ext) simp
  then show ?case by (simp add: Cons deliver_files)
qed

lemma bind_log_frame [simp]:
  "handlers (bind_log c l n m w) = handlers w"
  "next_id (bind_log c l n m w) = next_id w"
  "dirs (bind_log c l n m w) = dirs w"
  "model_calls (bind_log c l n m w) = model_calls w"
  "saved (bind_log c l n m w) = saved w"
  "stamp (bind_log c l n m w) = stamp w"
  "caller (bind_log c l n m w) = caller w"
  "formats_other (bind_log c l n m w) = formats_other w"
  by (simp_all add: bind_log_def emit_def)

lemma formats_bind_log [simp]: "formats (bind_log c l n m w) f r = formats w f r"
  by (rule formats_cong) simp_all

lemma log_format_verdict:
  "template_verdict (LOG_FORMAT @ CHR 0x0A # ''{exception}'') = Formats"
  by (simp add: template_verdict_def LOG_FORMAT_def name_char_def known_def record_keys_def)

lemma log_format_formats [simp]: "formats w (FormatString LOG_FORMAT) r"
  by (simp add: formats_def decide_def log_format_verdict)

lemma digit_char_digit: "n < 10 \<Longrightarrow> digit_char n \<in> set ''0123456789''"
  unfolding digit_char_def by (rule nth_mem) simp

lemma str_nat_hd: "str_nat n \<noteq> [] \<and> hd (str_nat n) \<in> set ''0123456789''"
proof (induction n rule: str_nat.induct)
  case (1 n)
  show ?case
  proof (cases "n < 10")
    case True
    then show ?thesis using digit_char_digit [of n] by (subst (1 2) str_nat.simps) simp
  next
    case False
    then show ?thesis using 1 by (subst (1 2) str_nat.simps) simp
  qed
qed

lemma strftime_ymd_relative: "strftime_ymd d \<noteq> [] \<and> \<not> startswith_sep (strftime_ymd d)"
proof -
  obtain c cs where s: "str_nat (year d) = c # cs" and c: "c \<in> set ''0123456789''"
    using str_nat_hd [of "year d"] by (cases "str_nat (year d)") auto
  from c have "c \<noteq> CHR ''/''" by auto
  with s show ?thesis by (simp add: strftime_ymd_def startswith_sep_def)
qed

lemma date_dir_nonempty: "date_dir lp d \<noteq> []"
  using strftime_ymd_relative [of d] by (simp add: date_dir_def os_path_join_def)

lemma get_log_file_path_ok:
  "get_log_file_path self key t w =
     (Inr (file_name (log_path self) (category self) key t),
      w\<lparr>dirs := List.insert (date_dir (log_path self) t) (dirs w)\<rparr>)"
  using date_dir_nonempty [of "log_path self" t]
  by (simp add: get_log_file_path_def makedirs_def)

lemma level_no_valid [simp]:
  "level_no ''DEBUG'' = Some 10" "level_no ''INFO'' = Some 20"
  "level_no ''WARNING'' = Some 30" "level_no ''ERROR'' = Some 40"
  by (simp_all add: level_no_def loguru_levels_def)

lemma config_file_handler_fresh:
  assumes "map_of (file_handlers self) key = None" and "level_no lvl = Some k"
  shows "config_file_handler key lvl t self w =
     (Inr (), self\<lparr>file_handlers := AList.update key (next_id w) (file_handlers self)\<rparr>,
      w\<lparr>dirs := List.insert (date_dir (log_path self) t) (dirs w),
        next_id := next_id w + 1,
        handlers := handlers w @
          [(next_id w, file_handler (category self) (file_name (log_path self) (category self) key t) lvl)]\<rparr>)"
  using assms
  by (simp add: config_file_handler_def get_log_file_path_ok log_add_def Let_def file_handler_def)


lemma valid_level_no: "l \<in> set VALID_LEVELS \<Longrightarrow> \<exists>k. level_no l = Some k"
  by (auto simp: VALID_LEVELS_def)

lemma config_file_handlers_init:
  assumes "file_handlers self = []"
  shows "config_file_handlers (t1, t2, t3, t4) self w =
     (Inr (),
      self\<lparr>file_handlers := [(''error'', next_id w), (''warning'', next_id w + 1),
                              (''info'', next_id w + 2), (''debug'', next_id w + 3)]\<rparr>,
      w\<lparr>dirs := List.insert (date_dir (log_path self) t4)
                 (List.insert (date_dir (log_path self) t3)
                   (List.insert (date_dir (log_path self) t2)
                     (List.insert (date_dir (log_path self) t1) (dirs w)))),
        next_id := next_id w + 4,
        handlers := handlers w @ file_part (log_path self) (category self) (t1, t2, t3, t4) (next_id w)\<rparr>)"
  using assms
  by (simp add: config_file_handlers_def and_then_def config_file_handler_fresh file_part_def)

lemma init_ok:
  assumes "upper rm \<in> set VALID_LEVELS" and "lp \<noteq> []"
  shows "LogManager_init lp rm cat (t1, t2, t3, t4) w =
     (Inr \<lparr>log_path = lp, run_mode = upper rm, category = cat,
           file_handlers = [(''error'', next_id w), (''warning'', next_id w + 1),
                            (''info'', next_id w + 2), (''debug'', next_id w + 3)],
           console_handler_id = Some (next_id w + 4)\<rparr>,
      w\<lparr>dirs := List.insert (date_dir lp t4)
                 (List.insert (date_dir lp t3)
                   (List.insert (date_dir lp t2)
                     (List.insert (date_dir lp t1) (List.insert lp (dirs w))))),
        next_id := next_id w + 5,
        handlers := file_part lp cat (t1, t2, t3, t4) (next_id w) @
          [(next_id w + 4, console_handler \<lparr>log_path = lp, run_mode = upper rm, category = cat,
               file_handlers = [], console_handler_id = None\<rparr>)]\<rparr>)"
proof -
  obtain k where k: "level_no (upper rm) = Some k" using valid_level_no [OF assms(1)] by blast
  show ?thesis
    using assms k
    by (simp add: LogManager_init_def Let_def makedirs_def log_remove_all_def
        config_file_handlers_init and_then_def config_console_handler_def log_add_def
        console_handler_def)
qed

lemma init_managed:
  assumes "LogManager_init lp rm cat clock w0 = (Inr self, w)"
  shows "managed lp cat clock (next_id w0) self w"
proof -
  obtain t1 t2 t3 t4 where c: "clock = (t1, t2, t3, t4)" by (cases clock) auto
  have v: "upper rm \<in> set VALID_LEVELS"
    using assms by (auto simp: LogManager_init_def Let_def split: if_splits)
  have l: "lp \<noteq> []"
    using assms v by (auto simp: LogManager_init_def Let_def makedirs_def split: if_splits)
  show ?thesis
    using assms v unfolding c init_ok [OF v l]
    by (auto simp: managed_def console_handler_def)
qed


lemma file_part_remove:
  "n + 4 \<le> c \<Longrightarrow> filter (\<lambda>p. fst p \<noteq> c) (file_part lp cat clock n) = file_part lp cat clock n"
  by (cases clock) (simp add: file_part_def)

lemma console_handler_simps [simp]:
  "console_handler (self\<lparr>console_handler_id := x\<rparr>) = console_handler self"
  "h_level (console_handler self) = run_mode self"
  "h_sink (console_handler self) = ConsoleSink"
  "h_filter_category (console_handler self) = Some (category self)"
  "h_format (console_handler self) = Callable colored_format"
  by (simp_all add: console_handler_def)

lemma set_log_level_invalid:
  "upper l \<notin> set VALID_LEVELS \<Longrightarrow> set_log_level l self w = (Inl ValueError, self, w)"
  by (simp add: set_log_level_def Let_def)

lemma set_log_level_same:
  "upper l \<in> set VALID_LEVELS \<Longrightarrow> run_mode self = upper l \<Longrightarrow>
   set_log_level l self w =
     (Inr (), self, bind_log (category self) ''INFO'' 20 (LevelUnchanged (upper l)) w)"
  by (simp add: set_log_level_def Let_def)

lemma set_log_level_change:
  assumes "managed lp cat clock n self w" and "upper l \<in> set VALID_LEVELS"
    and "run_mode self \<noteq> upper l"
  shows "set_log_level l self w =
     (Inr (), self\<lparr>run_mode := upper l, console_handler_id := Some (next_id w)\<rparr>,
      bind_log cat ''INFO'' 20 (LevelUpdated (upper l))
        (w\<lparr>next_id := next_id w + 1,
           handlers := file_part lp cat clock n @
             [(next_id w, console_handler (self\<lparr>run_mode := upper l\<rparr>))]\<rparr>))"
proof -
  obtain c where c: "console_handler_id self = Some c" "n + 4 \<le> c" "c < next_id w"
    "handlers w = file_part lp cat clock n @ [(c, console_handler self)]"
    using assms(1) by (auto simp: managed_def split: option.splits)
  have cat: "category self = cat" using assms(1) by (simp add: managed_def)
  obtain k where k: "level_no (upper l) = Some k" using valid_level_no [OF assms(2)] by blast
  show ?thesis
    using assms(2,3) c k cat
    by (simp add: set_log_level_def Let_def config_console_handler_def log_remove_def
        log_add_def file_part_remove)
qed

lemma managed_bind_log [simp]:
  "managed lp cat clock n self (bind_log c l k m w) = managed lp cat clock n self w"
  by (simp add: managed_def split: option.splits)

lemma set_log_level_managed:
  assumes "managed lp cat clock n self w"
  shows "managed lp cat clock n (fst (snd (set_log_level l self w))) (snd (snd (set_log_level l self w)))"
proof (cases "upper l \<in> set VALID_LEVELS")
  case False
  then show ?thesis using assms by (simp add: set_log_level_invalid)
next
  case True
  show ?thesis
  proof (cases "run_mode self = upper l")
    case True
    with \<open>upper l \<in> set VALID_LEVELS\<close> assms show ?thesis
      by (simp add: set_log_level_same)
  next
    case False
    have "n + 4 \<le> next_id w" using assms by (auto simp: managed_def split: option.splits)
    with True assms show ?thesis
      unfolding set_log_level_change [OF assms True False]
      by (simp add: managed_def)
  qed
qed

lemma step_managed:
  "managed lp cat clock n (fst s) (snd s) \<Longrightarrow> managed lp cat clock n (fst (step c s)) (snd (step c s))"
proof (cases s)
  case (Pair self w)
  assume "managed lp cat clock n (fst s) (snd s)"
  then have m: "managed lp cat clock n self w" using Pair by simp
  show ?thesis
  proof (cases c)
    case (SetLogLevel l)
    then show ?thesis using set_log_level_managed [OF m, of l] Pair by simp
  qed (use m Pair in \<open>simp_all add: debug_def info_def warning_def error_def\<close>)
qed

lemma run_managed:
  "managed lp cat clock n (fst s) (snd s) \<Longrightarrow> managed lp cat clock n (fst (run cs s)) (snd (run cs s))"
  unfolding run_def
  by (induction cs arbitrary: s) (simp_all add: step_managed)

lemma reach_managed:
  assumes "LogManager_init lp rm cat clock w0 = (Inr self0, w1)" and "run cs (self0, w1) = (self, w)"
  shows "managed lp cat clock (next_id w0) self w"
  using run_managed [of lp cat clock "next_id w0" "(self0, w1)" cs] init_managed [OF assms(1)] assms(2)
  by simp

lemma upper_valid: "l \<in> set VALID_LEVELS \<Longrightarrow> upper l = l"
  by (auto simp: VALID_LEVELS_def upper_def upper_char_def)

lemma file_part_no_console: "filter (console_hit w r) (file_part lp cat clock n) = []"
  by (cases clock) (simp add: file_part_def console_hit_def file_handler_def)

lemma managed_console:
  assumes "managed lp cat clock n self w"
  shows "console (bind_log cat sev k msg w) =
     (let r = \<lparr>r_level = sev, r_levelno = k, r_message = msg, r_extra_category = Some cat\<rparr>
      in console w @
           (if (case level_no (run_mode self) of None \<Rightarrow> False | Some j \<Rightarrow> j \<le> k) \<and>
               formats w (Callable colored_format) r
            then [r] else []))"
proof -
  obtain c where c: "handlers w = file_part lp cat clock n @ [(c, console_handler self)]"
    using assms by (auto simp: managed_def split: option.splits)
  have cat: "category self = cat" using assms by (simp add: managed_def)
  show ?thesis
    by (simp add: bind_log_def emit_def fold_deliver_console deliver_console c file_part_no_console
        console_hit_def accepts_def cat Let_def split: option.splits)
qed

lemma managed_log_at_console:
  assumes "managed lp cat clock n self w" and "sev \<in> set VALID_LEVELS"
  shows "console (log_at sev self msg w) =
     console w @
       (if priority (run_mode self) \<le> priority sev \<and>
           formats w (Callable colored_format) (entry cat sev msg)
        then [entry cat sev msg] else [])"
proof -
  have cat: "category self = cat" and rm: "run_mode self \<in> set VALID_LEVELS"
    using assms(1) by (simp_all add: managed_def)
  from rm assms(2) show ?thesis
    unfolding VALID_LEVELS_def
    by (auto simp: log_at_def debug_def info_def warning_def error_def cat
        managed_console [OF assms(1)] entry_def priority_def LEVEL_PRIORITY_def Let_def)
qed


lemma managed_files:
  assumes "managed lp cat (t1, t2, t3, t4) n self w"
  shows "files (bind_log cat sev k msg w) =
     files w @
       (let r = \<lparr>r_level = sev, r_levelno = k, r_message = msg, r_extra_category = Some cat\<rparr>
        in (if 40 \<le> k then [(file_name lp cat ''error'' t1, r)] else []) @
           (if 30 \<le> k then [(file_name lp cat ''warning'' t2, r)] else []) @
           (if 20 \<le> k then [(file_name lp cat ''info'' t3, r)] else []) @
           (if 10 \<le> k then [(file_name lp cat ''debug'' t4, r)] else []))"
proof -
  obtain c where c: "handlers w = file_part lp cat (t1, t2, t3, t4) n @ [(c, console_handler self)]"
    using assms by (auto simp: managed_def split: option.splits)
  show ?thesis
    by (simp add: bind_log_def emit_def fold_deliver_files deliver_files c file_part_def
        file_hit_def accepts_def file_handler_def Let_def)
qed

lemma managed_file_ids:
  assumes "managed lp cat clock n self w" and "p \<in> set (file_handlers self)"
  shows "map_of (handlers w) (snd p) = map_of (file_part lp cat clock n) (snd p)
         \<and> map_of (file_part lp cat clock n) (snd p) \<noteq> None"
proof -
  obtain c where c: "n + 4 \<le> c"
    "handlers w = file_part lp cat clock n @ [(c, console_handler self)]"
    using assms(1) by (auto simp: managed_def split: option.splits)
  have f: "file_handlers self =
     [(''error'', n), (''warning'', n + 1), (''info'', n + 2), (''debug'', n + 3)]"
    using assms(1) by (simp add: managed_def)
  obtain t1 t2 t3 t4 where t: "clock = (t1, t2, t3, t4)" by (cases clock) auto
  show ?thesis
    using assms(2) c(1) unfolding f c(2) t
    by (auto simp: file_part_def)
qed

lemma managed_file_sinks:
  assumes "managed lp cat clock n self w"
  shows "filter is_file (handlers w) = file_part lp cat clock n"
proof -
  obtain c where c: "handlers w = file_part lp cat clock n @ [(c, console_handler self)]"
    using assms by (auto simp: managed_def split: option.splits)
  obtain t1 t2 t3 t4 where t: "clock = (t1, t2, t3, t4)" by (cases clock) auto
  show ?thesis unfolding c t by (simp add: file_part_def is_file_def file_handler_def)
qed


lemma fold_deliver_none:
  "(\<forall>p\<in>set hs. \<not> accepts (snd p) r) \<Longrightarrow> fold (deliver r) hs w = w"
  by (induction hs arbitrary: w) (simp_all add: deliver_def)

lemma managed_filters:
  assumes "managed lp cat clock n self w" and "p \<in> set (handlers w)"
  shows "h_filter_category (snd p) = Some cat"
proof -
  obtain c where c: "handlers w = file_part lp cat clock n @ [(c, console_handler self)]"
    using assms(1) by (auto simp: managed_def split: option.splits)
  have cat: "category self = cat" using assms(1) by (simp add: managed_def)
  obtain t1 t2 t3 t4 where t: "clock = (t1, t2, t3, t4)" by (cases clock) auto
  show ?thesis
    using assms(2) unfolding c t
    by (auto simp: file_part_def file_handler_def cat)
qed

lemma managed_ids:
  assumes "managed lp cat clock n self w"
  shows "fst ` set (handlers w) = snd ` set (file_handlers self) \<union> set_option (console_handler_id self)"
proof -
  obtain c where c: "console_handler_id self = Some c"
    "handlers w = file_part lp cat clock n @ [(c, console_handler self)]"
    using assms(1) by (auto simp: managed_def split: option.splits)
  have f: "file_handlers self =
     [(''error'', n), (''warning'', n + 1), (''info'', n + 2), (''debug'', n + 3)]"
    using assms(1) by (simp add: managed_def)
  obtain t1 t2 t3 t4 where t: "clock = (t1, t2, t3, t4)" by (cases clock) auto
  show ?thesis unfolding c f t by (auto simp: file_part_def)
qed


lemma upper_lowercase:
  "upper ''debug'' = ''DEBUG''" "upper ''info'' = ''INFO''"
  "upper ''warning'' = ''WARNING''" "upper ''error'' = ''ERROR''"
  by (simp_all add: upper_def upper_char_def)

lemma valid_levels_mem:
  "''DEBUG'' \<in> set VALID_LEVELS" "''INFO'' \<in> set VALID_LEVELS"
  "''WARNING'' \<in> set VALID_LEVELS" "''ERROR'' \<in> set VALID_LEVELS"
  by (simp_all add: VALID_LEVELS_def)

lemma init_succeeds:
  assumes "upper rm \<in> set VALID_LEVELS" and "lp \<noteq> []"
  shows "\<exists>self0 w1. LogManager_init lp rm cat clock w0 = (Inr self0, w1)"
proof -
  obtain t1 t2 t3 t4 where t: "clock = (t1, t2, t3, t4)" by (cases clock) auto
  show ?thesis unfolding t init_ok [OF assms] by blast
qed



lemma init_invalid:
  "upper l \<notin> set VALID_LEVELS \<Longrightarrow> LogManager_init lp l cat clock w = (Inl ValueError, w)"
  by (simp add: LogManager_init_def Let_def)

lemma init_empty_path:
  "upper l \<in> set VALID_LEVELS \<Longrightarrow> LogManager_init [] l cat clock w = (Inl OSError, w)"
  by (simp add: LogManager_init_def Let_def makedirs_def)

lemma init_no_ValueError:
  assumes "upper l \<in> set VALID_LEVELS"
  shows "fst (LogManager_init lp l cat clock w) \<noteq> Inl ValueError"
proof (cases "lp = []")
  case True
  then show ?thesis using init_empty_path [OF assms] by simp
next
  case False
  then show ?thesis using init_succeeds [OF assms False, of cat clock w] by auto
qed

lemma set_log_level_returns:
  assumes "managed lp cat clock n self w" and "upper l \<in> set VALID_LEVELS"
  shows "fst (set_log_level l self w) = Inr ()"
proof (cases "run_mode self = upper l")
  case True
  then show ?thesis using set_log_level_same [OF assms(2) True] by simp
next
  case False
  then show ?thesis using set_log_level_change [OF assms False] by simp
qed

lemma lowercase_valid:
  "l \<in> set [''debug'', ''info'', ''warning'', ''error''] \<Longrightarrow> upper l \<in> set VALID_LEVELS"
  by (auto simp: upper_lowercase valid_levels_mem)

lemma init_env:
  assumes "LogManager_init lp rm cat clock w0 = (Inr self0, w1)"
  shows "stamp w1 = stamp w0 \<and> caller w1 = caller w0 \<and> formats_other w1 = formats_other w0"
proof -
  obtain t1 t2 t3 t4 where c: "clock = (t1, t2, t3, t4)" by (cases clock) auto
  have v: "upper rm \<in> set VALID_LEVELS"
    using assms by (auto simp: LogManager_init_def Let_def split: if_splits)
  have l: "lp \<noteq> []"
    using assms v by (auto simp: LogManager_init_def Let_def makedirs_def split: if_splits)
  show ?thesis using assms unfolding c init_ok [OF v l] by auto
qed

lemma set_log_level_env:
  assumes "managed lp cat clock n self w" and "set_log_level l self w = (r, self', w')"
  shows "stamp w' = stamp w \<and> caller w' = caller w \<and> formats_other w' = formats_other w"
proof (cases "upper l \<in> set VALID_LEVELS")
  case False
  then show ?thesis using assms(2) by (simp add: set_log_level_invalid)
next
  case True
  show ?thesis
  proof (cases "run_mode self = upper l")
    case True
    with \<open>upper l \<in> set VALID_LEVELS\<close> assms(2) show ?thesis
      by (auto simp: set_log_level_same)
  next
    case False
    show ?thesis
      using assms(2) unfolding set_log_level_change [OF assms(1) True False] by auto
  qed
qed

lemma braces_template:
  "colored_format ''2026-11-03 09:30:00'' ''tools.log_mode'' ''ERROR'' ''{x}'' =
     RED_BOLD @ ''2026-11-03 09:30:00 - tools.log_mode - ERROR - {x}'' @ RESET @ [CHR 0x0A]"
  by (simp add: colored_format_def COLOR_MAP_def Let_def)

lemma braces_verdict:
  "template_verdict
     (RED_BOLD @ ''2026-11-03 09:30:00 - tools.log_mode - ERROR - {x}'' @ RESET @ [CHR 0x0A])
     = Fails"
  by (simp add: template_verdict_def RED_BOLD_def RED_def BOLD_def RESET_def name_char_def
      known_def record_keys_def)

lemma braces_fails:
  "template_verdict (colored_format ''2026-11-03 09:30:00'' ''tools.log_mode'' ''ERROR'' ''{x}'')
     = Fails"
  unfolding braces_template by (rule braces_verdict)

lemma plain_verdict:
  "template_verdict
     (colored_format ''2026-11-03 09:30:00'' ''tools.log_mode'' ''ERROR'' ''disk full'')
     = Formats"
  by (simp add: colored_format_def COLOR_MAP_def Let_def template_verdict_def RED_BOLD_def
      RED_def BOLD_def RESET_def)

subsection \<open>The predictor and the main program\<close>

lemma level_method_frame [simp]:
  "handlers (debug lm msg w) = handlers w" "next_id (debug lm msg w) = next_id w"
  "dirs (debug lm msg w) = dirs w" "model_calls (debug lm msg w) = model_calls w"
  "saved (debug lm msg w) = saved w"
  "handlers (info lm msg w) = handlers w" "next_id (info lm msg w) = next_id w"
  "dirs (info lm msg w) = dirs w" "model_calls (info lm msg w) = model_calls w"
  "saved (info lm msg w) = saved w"
  "handlers (warning lm msg w) = handlers w" "next_id (warning lm msg w) = next_id w"
  "dirs (warning lm msg w) = dirs w" "model_calls (warning lm msg w) = model_calls w"
  "saved (warning lm msg w) = saved w"
  "handlers (error lm msg w) = handlers w" "next_id (error lm msg w) = next_id w"
  "dirs (error lm msg w) = dirs w" "model_calls (error lm msg w) = model_calls w"
  "saved (error lm msg w) = saved w"
  by (simp_all add: debug_def info_def warning_def error_def)

lemma call_ok:
  assumes "log_manager sp = Some lm" and "model sp = Some m"
  shows "SAMPredictor_call lib sp src B P L w =
     (lib \<lparr>mc_model = m, mc_source = src, mc_kwargs = [(''points'', P), (''labels'', L)]\<rparr>,
      (debug lm (CallLabels L) (debug lm (CallPoints P) (debug lm (CallBboxes B)
         (debug lm (CallInput src) (debug lm CallStart w)))))
       \<lparr>model_calls := model_calls w @
          [\<lparr>mc_model = m, mc_source = src, mc_kwargs = [(''points'', P), (''labels'', L)]\<rparr>]\<rparr>)"
  using assms by (simp add: SAMPredictor_call_def Let_def)

lemma a_config_items:
  "getitem a_config ''input_data_path'' = Inr (PStr ''./data/cat.jpg'')"
  "getitem a_config ''bboxes'' = Inr (PList [PList [PInt 10, PInt 20, PInt 30, PInt 40]])"
  "getitem a_config ''points'' = Inr PNone"
  "getitem a_config ''labels'' = Inr PNone"
  "getitem a_config ''output_data_path'' = Inr (PStr ''./output/'')"
  by (simp_all add: getitem_def a_config_def)

lemma main_inference_ok:
  assumes "getitem config ''input_data_path'' = Inr src"
    and "getitem config ''bboxes'' = Inr B"
    and "getitem config ''points'' = Inr P"
    and "getitem config ''labels'' = Inr L"
    and "getitem config ''output_data_path'' = Inr out"
    and "log_manager sp = Some lm'"
    and "model sp = Some m"
    and "lib \<lparr>mc_model = m, mc_source = src, mc_kwargs = [(''points'', P), (''labels'', L)]\<rparr>
           = Inr results"
  shows "main_inference lib sp lm config a w =
     (Inr (),
      let wc = snd (SAMPredictor_call lib sp src B P L (info lm InferStart w));
          w3 = info lm (InferDone (length results)) wc
      in if length results = 1 then w3\<lparr>saved := saved w3 @ [(results ! 0, out)]\<rparr>
         else if length results > 1 then warning lm (MultipleResults (arg_mode a)) w3
         else error lm NoSamples w3)"
  using assms
  by (simp add: main_inference_def call_ok [OF assms(6,7)] Let_def)

section \<open>Properties of the inference driver\<close>

text \<open>
  C1. What the code does with the prompts: \<open>__call__\<close> takes the bounding boxes, logs
  them, and calls the model with the points and the labels only. Called with the boxes
  \<open>[[10, 20, 30, 40]]\<close> and neither points nor labels, it makes one call of the model,
  whose keyword arguments are \<open>points\<close> and \<open>labels\<close>, both \<open>None\<close>; the boxes are not
  among them.
\<close>

theorem call_drops_bboxes:
  "model_calls (snd (SAMPredictor_call lib
       \<lparr>log_manager = Some lm, mode = ''image'', model = Some (SAM mp)\<rparr>
       src (PList [PList [PInt 10, PInt 20, PInt 30, PInt 40]]) PNone PNone w)) =
     model_calls w @
       [\<lparr>mc_model = SAM mp, mc_source = src,
         mc_kwargs = [(''points'', PNone), (''labels'', PNone)]\<rparr>] \<and>
   map_of (mc_kwargs (last (model_calls (snd (SAMPredictor_call lib
       \<lparr>log_manager = Some lm, mode = ''image'', model = Some (SAM mp)\<rparr>
       src (PList [PList [PInt 10, PInt 20, PInt 30, PInt 40]]) PNone PNone w))))) ''bboxes''
     = None"
  by (simp add: call_ok)

text \<open>
  C2. What the code does with the modes: the command line accepts \<open>img\<close>, \<open>video2img\<close>,
  \<open>video\<close> and \<open>DynVideo\<close>, and refuses \<open>image\<close>; the constructor dispatches on
  \<open>image\<close>, \<open>video2img\<close>, \<open>video\<close> and \<open>DynVideo\<close>. With the accepted mode \<open>img\<close> the
  constructor takes no branch and returns a predictor without a model, and the inference
  call on it raises \<open>AttributeError\<close>.
\<close>

theorem cli_mode_img_builds_no_model:
  "set mode_choices = {''img'', ''video2img'', ''video'', ''DynVideo''} \<and>
   ''image'' \<notin> set mode_choices \<and>
   parse_args None None (Some ''image'') = Inl (SystemExit 2) \<and>
   parse_args None None (Some ''img'') =
     Inr \<lparr>arg_config = ''./config/sam_2.yaml'', arg_log_level = ''DEBUG'', arg_mode = ''img''\<rparr> \<and>
   fst (SAMPredictor_init mp (Some lm) ''img'' w) =
     Inr \<lparr>log_manager = Some lm, mode = ''img'', model = None\<rparr> \<and>
   constructed (SAMPredictor_init mp (Some lm) ''img'' w) = None \<and>
   fst (SAMPredictor_call lib \<lparr>log_manager = Some lm, mode = ''img'', model = None\<rparr>
          src B P L w') = Inl AttributeError"
  by (auto simp: mode_choices_def parse_args_def log_level_choices_def SAMPredictor_init_def
      constructed_def SAMPredictor_call_def Let_def)

text \<open>
  C3. Constructed with the mode \<open>DynVideo\<close>, the predictor holds a dynamic interactive
  predictor built for the model file \<open>sam2_t.pt\<close>, whatever the model path given; the
  model path only appears in a message logged at level INFO.
\<close>

theorem dyn_video_ignores_model_path:
  "SAMPredictor_init model_path (Some lm) ''DynVideo'' w =
     (Inr \<lparr>log_manager = Some lm, mode = ''DynVideo'',
           model = Some (SAM2DynamicInteractivePredictor
             [(''conf'', PNum (1 / 100)), (''task'', PStr ''segment''),
              (''mode'', PStr ''predict''), (''imgsz'', PInt 1024),
              (''model'', PStr ''sam2_t.pt''), (''save'', PBool False)] 10)\<rparr>,
      debug lm LoadDone (info lm (ModelPath model_path)
        (debug lm (ModeDyn ''DynVideo'') (debug lm LoadStart w))))"
  by (simp add: SAMPredictor_init_def Let_def)

text \<open>
  C4, as the code has it. The modes \<open>image\<close> and \<open>video2img\<close> are served by the same
  constructor, \<open>SAM\<close>: the constructors invoked for the four modes are not pairwise
  distinct.
\<close>

theorem image_and_video2img_share_constructor:
  "map_option constructor_name
     (constructed (SAMPredictor_init (PStr ''sam2_b.pt'') (Some a_manager) ''image'' fresh_world))
     = Some ''SAM'' \<and>
   map_option constructor_name
     (constructed (SAMPredictor_init (PStr ''sam2_b.pt'') (Some a_manager) ''video2img'' fresh_world))
     = Some ''SAM'' \<and>
   \<not> distinct (map (\<lambda>md. map_option constructor_name
        (constructed (SAMPredictor_init (PStr ''sam2_b.pt'') (Some a_manager) md fresh_world)))
      [''image'', ''video2img'', ''video'', ''DynVideo''])"
  by (simp add: SAMPredictor_init_def constructed_def Let_def)

text \<open>
  C4, amended. The mode switch selects among three constructors of the library: \<open>SAM\<close>
  on the model path for the modes \<open>image\<close> and \<open>video2img\<close>, \<open>SAM2VideoPredictor\<close> for
  \<open>video\<close>, and \<open>SAM2DynamicInteractivePredictor\<close> for \<open>DynVideo\<close>.
\<close>

theorem mode_switch_three_constructors:
  "constructed (SAMPredictor_init mp (Some lm) ''image'' w) = Some (SAM mp) \<and>
   constructed (SAMPredictor_init mp (Some lm) ''video2img'' w) = Some (SAM mp) \<and>
   constructed (SAMPredictor_init mp (Some lm) ''video'' w) =
     Some (SAM2VideoPredictor
       [(''conf'', PNum (25 / 100)), (''task'', PStr ''segment''), (''mode'', PStr ''predict''),
        (''imgsz'', PInt 1024), (''model'', mp)]) \<and>
   constructed (SAMPredictor_init mp (Some lm) ''DynVideo'' w) =
     Some (SAM2DynamicInteractivePredictor
       [(''conf'', PNum (1 / 100)), (''task'', PStr ''segment''), (''mode'', PStr ''predict''),
        (''imgsz'', PInt 1024), (''model'', PStr ''sam2_t.pt''), (''save'', PBool False)] 10) \<and>
   map (\<lambda>md. map_option constructor_name (constructed (SAMPredictor_init mp (Some lm) md w)))
     [''image'', ''video2img'', ''video'', ''DynVideo''] =
     [Some ''SAM'', Some ''SAM'', Some ''SAM2VideoPredictor'',
      Some ''SAM2DynamicInteractivePredictor''] \<and>
   distinct [''SAM'', ''SAM2VideoPredictor'', ''SAM2DynamicInteractivePredictor'']"
  by (simp add: SAMPredictor_init_def constructed_def Let_def)

text \<open>
  C5, as the code has it. A run whose inference call returns two results ends normally
  and saves nothing.
\<close>

theorem several_results_are_not_saved:
  "fst (main_inference (\<lambda>c. Inr [Result 0, Result 1])
     \<lparr>log_manager = Some a_manager, mode = ''video'',
      model = Some (SAM2VideoPredictor [(''model'', PStr ''sam2_b.pt'')])\<rparr>
     a_manager a_config
     \<lparr>arg_config = ''./config/sam_2.yaml'', arg_log_level = ''DEBUG'', arg_mode = ''video''\<rparr>
     fresh_world) = Inr () \<and>
   saved (snd (main_inference (\<lambda>c. Inr [Result 0, Result 1])
     \<lparr>log_manager = Some a_manager, mode = ''video'',
      model = Some (SAM2VideoPredictor [(''model'', PStr ''sam2_b.pt'')])\<rparr>
     a_manager a_config
     \<lparr>arg_config = ''./config/sam_2.yaml'', arg_log_level = ''DEBUG'', arg_mode = ''video''\<rparr>
     fresh_world)) = []"
proof -
  let ?sp = "\<lparr>log_manager = Some a_manager, mode = ''video'',
      model = Some (SAM2VideoPredictor [(''model'', PStr ''sam2_b.pt'')])\<rparr>"
  have l: "log_manager ?sp = Some a_manager"
    and m: "model ?sp = Some (SAM2VideoPredictor [(''model'', PStr ''sam2_b.pt'')])"
    by simp_all
  have r: "(\<lambda>c. Inr [Result 0, Result 1])
       \<lparr>mc_model = SAM2VideoPredictor [(''model'', PStr ''sam2_b.pt'')],
        mc_source = PStr ''./data/cat.jpg'',
        mc_kwargs = [(''points'', PNone), (''labels'', PNone)]\<rparr> = Inr [Result 0, Result 1]"
    by simp
  show ?thesis
    unfolding main_inference_ok [where lib = "\<lambda>c. Inr [Result 0, Result 1]", OF a_config_items l m r]
    by (simp add: call_ok [OF l m] Let_def fresh_world_def)
qed

text \<open>
  C5, amended. When the configuration has the keys the driver reads, the predictor has its
  log manager and its model, and the inference call returns a list of results, the driver
  ends normally, and it saves a result to the configured output path exactly when the list
  has exactly one element, which is the result it saves; with several results it saves
  nothing and logs a warning, with none it saves nothing and logs an error.
\<close>

theorem results_saved_only_when_single:
  assumes "getitem config ''input_data_path'' = Inr src"
    and "getitem config ''bboxes'' = Inr B"
    and "getitem config ''points'' = Inr P"
    and "getitem config ''labels'' = Inr L"
    and "getitem config ''output_data_path'' = Inr out"
    and "log_manager sp = Some lm'"
    and "model sp = Some m"
    and "lib \<lparr>mc_model = m, mc_source = src, mc_kwargs = [(''points'', P), (''labels'', L)]\<rparr>
           = Inr results"
  shows "fst (main_inference lib sp lm config a w) = Inr () \<and>
    saved (snd (main_inference lib sp lm config a w)) =
      saved w @ (if length results = 1 then [(results ! 0, out)] else []) \<and>
    snd (main_inference lib sp lm config a w) =
      (let wc = snd (SAMPredictor_call lib sp src B P L (info lm InferStart w));
           w3 = info lm (InferDone (length results)) wc
       in if length results = 1 then w3\<lparr>saved := saved w3 @ [(results ! 0, out)]\<rparr>
          else if length results > 1 then warning lm (MultipleResults (arg_mode a)) w3
          else error lm NoSamples w3)"
  unfolding main_inference_ok [where lib = lib, OF assms]
  by (simp add: call_ok [OF assms(6,7)] Let_def)

text \<open>A run whose inference call returns one result saves it to \<open>./output/\<close>.\<close>

theorem results_saved_only_when_single_witness:
  "fst (main_inference (\<lambda>c. Inr [Result 0])
     \<lparr>log_manager = Some a_manager, mode = ''image'', model = Some (SAM (PStr ''sam2_b.pt''))\<rparr>
     a_manager a_config
     \<lparr>arg_config = ''./config/sam_2.yaml'', arg_log_level = ''DEBUG'', arg_mode = ''image''\<rparr>
     fresh_world) = Inr () \<and>
   saved (snd (main_inference (\<lambda>c. Inr [Result 0])
     \<lparr>log_manager = Some a_manager, mode = ''image'', model = Some (SAM (PStr ''sam2_b.pt''))\<rparr>
     a_manager a_config
     \<lparr>arg_config = ''./config/sam_2.yaml'', arg_log_level = ''DEBUG'', arg_mode = ''image''\<rparr>
     fresh_world)) = [(Result 0, PStr ''./output/'')]"
proof -
  let ?sp = "\<lparr>log_manager = Some a_manager, mode = ''image'',
               model = Some (SAM (PStr ''sam2_b.pt''))\<rparr>"
  have l: "log_manager ?sp = Some a_manager" and m: "model ?sp = Some (SAM (PStr ''sam2_b.pt''))"
    by simp_all
  have r: "(\<lambda>c. Inr [Result 0])
       \<lparr>mc_model = SAM (PStr ''sam2_b.pt''), mc_source = PStr ''./data/cat.jpg'',
        mc_kwargs = [(''points'', PNone), (''labels'', PNone)]\<rparr> = Inr [Result 0]"
    by simp
  note t = results_saved_only_when_single [where lib = "\<lambda>c. Inr [Result 0]" and lm = a_manager
      and w = fresh_world
      and a = "\<lparr>arg_config = ''./config/sam_2.yaml'', arg_log_level = ''DEBUG'',
                 arg_mode = ''image''\<rparr>",
      OF a_config_items l m r]
  have s: "saved fresh_world = []" by (simp add: fresh_world_def)
  show ?thesis using t [THEN conjunct1] t [THEN conjunct2, THEN conjunct1] s by simp
qed

section \<open>Properties of the logging manager\<close>

text \<open>
  C6. What the code does with a message that holds a replacement field. The format
  function of the console handler puts the message into the text it returns, and the
  logger formats that text as a template. A manager is built at level INFO and set to
  ERROR: \<open>set_log_level\<close> returns and \<open>get_current_level\<close> gives ERROR. For the message
  \<open>{x}\<close> logged with \<open>error\<close>, the template is the coloured line with \<open>{x}\<close> in it, a
  field that names no key of the record, so formatting fails: nothing is printed on the
  console, although the severity is at the console level and the record is written to the
  four files. The message \<open>disk full\<close>, logged the same way, is printed.
\<close>

theorem message_with_braces_is_not_printed:
  "case LogManager_init ''./logs/'' ''INFO'' ''default'' (a_day, a_day, a_day, a_day) fresh_world of
     (Inl e, w1) \<Rightarrow> False
   | (Inr self0, w1) \<Rightarrow>
       (case set_log_level ''ERROR'' self0 w1 of
          (r, self, w) \<Rightarrow>
            r = Inr () \<and> get_current_level self = ''ERROR'' \<and>
            colored_format (stamp w) (caller w) ''ERROR'' ''{x}'' =
              RED_BOLD @ ''2026-11-03 09:30:00 - tools.log_mode - ERROR - {x}'' @ RESET @
              [CHR 0x0A] \<and>
            template_verdict (colored_format (stamp w) (caller w) ''ERROR'' ''{x}'') = Fails \<and>
            console (error self (Text ''{x}'') w) = console w \<and>
            files (error self (Text ''{x}'') w) =
              files w @
                [(file_name ''./logs/'' ''default'' ''error'' a_day,
                  entry ''default'' ''ERROR'' (Text ''{x}'')),
                 (file_name ''./logs/'' ''default'' ''warning'' a_day,
                  entry ''default'' ''ERROR'' (Text ''{x}'')),
                 (file_name ''./logs/'' ''default'' ''info'' a_day,
                  entry ''default'' ''ERROR'' (Text ''{x}'')),
                 (file_name ''./logs/'' ''default'' ''debug'' a_day,
                  entry ''default'' ''ERROR'' (Text ''{x}''))] \<and>
            console (error self (Text ''disk full'') w) =
              console w @ [entry ''default'' ''ERROR'' (Text ''disk full'')])"
proof -
  let ?clock = "(a_day, a_day, a_day, a_day)"
  have v: "upper ''INFO'' \<in> set VALID_LEVELS" by (simp add: upper_valid valid_levels_mem)
  obtain self0 w1 where h1:
    "LogManager_init ''./logs/'' ''INFO'' ''default'' ?clock fresh_world = (Inr self0, w1)"
    using init_succeeds [OF v, of "''./logs/''" "''default''" ?clock fresh_world] by auto
  obtain r self w where h2: "set_log_level ''ERROR'' self0 w1 = (r, self, w)"
    by (cases "set_log_level ''ERROR'' self0 w1") auto
  let ?n = "next_id fresh_world"
  have m0: "managed ''./logs/'' ''default'' ?clock ?n self0 w1" using init_managed [OF h1] .
  have m: "managed ''./logs/'' ''default'' ?clock ?n self w"
    using set_log_level_managed [OF m0, of "''ERROR''"] h2 by simp
  have env: "stamp w = ''2026-11-03 09:30:00''" "caller w = ''tools.log_mode''"
    using init_env [OF h1] set_log_level_env [OF m0 h2] by (simp_all add: fresh_world_def)
  have u: "upper ''ERROR'' = ''ERROR''" by (simp add: upper_valid valid_levels_mem)
  have ret: "r = Inr () \<and> run_mode self = ''ERROR''"
  proof (cases "run_mode self0 = ''ERROR''")
    case True
    then show ?thesis using h2 set_log_level_same [of "''ERROR''" self0 w1] u valid_levels_mem
      by simp
  next
    case False
    then show ?thesis using h2 set_log_level_change [OF m0, of "''ERROR''"] u valid_levels_mem
      by auto
  qed
  have cat: "category self = ''default''" using m by (simp add: managed_def)
  have bad: "\<not> formats w (Callable colored_format) (entry ''default'' ''ERROR'' (Text ''{x}''))"
    by (simp add: formats_def message_text_def entry_def env braces_fails decide_def)
  have good: "formats w (Callable colored_format) (entry ''default'' ''ERROR'' (Text ''disk full''))"
    by (simp add: formats_def message_text_def entry_def env plain_verdict decide_def)
  have e: "log_at ''ERROR'' = error" by (simp add: log_at_def)
  have c1: "console (error self (Text ''{x}'') w) = console w"
    using managed_log_at_console [OF m, of "''ERROR''" "Text ''{x}''"] bad valid_levels_mem
    by (simp add: e)
  have c2: "console (error self (Text ''disk full'') w) =
              console w @ [entry ''default'' ''ERROR'' (Text ''disk full'')]"
    using managed_log_at_console [OF m, of "''ERROR''" "Text ''disk full''"] good ret
      valid_levels_mem
    by (simp add: e)
  have f: "files (error self (Text ''{x}'') w) =
              files w @
                [(file_name ''./logs/'' ''default'' ''error'' a_day,
                  entry ''default'' ''ERROR'' (Text ''{x}'')),
                 (file_name ''./logs/'' ''default'' ''warning'' a_day,
                  entry ''default'' ''ERROR'' (Text ''{x}'')),
                 (file_name ''./logs/'' ''default'' ''info'' a_day,
                  entry ''default'' ''ERROR'' (Text ''{x}'')),
                 (file_name ''./logs/'' ''default'' ''debug'' a_day,
                  entry ''default'' ''ERROR'' (Text ''{x}''))]"
    by (simp add: error_def cat managed_files [OF m] entry_def Let_def)
  have t1: "colored_format (stamp w) (caller w) ''ERROR'' ''{x}'' =
              RED_BOLD @ ''2026-11-03 09:30:00 - tools.log_mode - ERROR - {x}'' @ RESET @
              [CHR 0x0A]"
    unfolding env by (rule braces_template)
  have t2: "template_verdict (colored_format (stamp w) (caller w) ''ERROR'' ''{x}'') = Fails"
    unfolding env by (rule braces_fails)
  have lvl: "get_current_level self = ''ERROR''" using ret by (simp add: get_current_level_def)
  have all: "r = Inr () \<and> get_current_level self = ''ERROR'' \<and>
            colored_format (stamp w) (caller w) ''ERROR'' ''{x}'' =
              RED_BOLD @ ''2026-11-03 09:30:00 - tools.log_mode - ERROR - {x}'' @ RESET @
              [CHR 0x0A] \<and>
            template_verdict (colored_format (stamp w) (caller w) ''ERROR'' ''{x}'') = Fails \<and>
            console (error self (Text ''{x}'') w) = console w \<and>
            files (error self (Text ''{x}'') w) =
              files w @
                [(file_name ''./logs/'' ''default'' ''error'' a_day,
                  entry ''default'' ''ERROR'' (Text ''{x}'')),
                 (file_name ''./logs/'' ''default'' ''warning'' a_day,
                  entry ''default'' ''ERROR'' (Text ''{x}'')),
                 (file_name ''./logs/'' ''default'' ''info'' a_day,
                  entry ''default'' ''ERROR'' (Text ''{x}'')),
                 (file_name ''./logs/'' ''default'' ''debug'' a_day,
                  entry ''default'' ''ERROR'' (Text ''{x}''))] \<and>
            console (error self (Text ''disk full'') w) =
              console w @ [entry ''default'' ''ERROR'' (Text ''disk full'')]"
    using ret lvl t1 t2 c1 f c2 by blast
  show ?thesis unfolding h1 h2 sum.case prod.case by (rule all)
qed

text \<open>
  C7. In a state reached by constructing a manager and calling its methods, any call of
  \<open>set_log_level\<close>, whatever its argument and outcome, leaves the dictionary of file
  handlers as it was, leaves every file handler registered in the logger as it was, and
  leaves the logger's file sinks as a whole unchanged. Afterwards a message of each
  severity is still written to the file of its level, and to the files of the lower
  levels: DEBUG to the debug file; INFO to the info and debug files; WARNING to the
  warning, info and debug files; ERROR to all four.
\<close>

theorem set_log_level_keeps_file_handlers:
  assumes "LogManager_init lp rm cat (t1, t2, t3, t4) w0 = (Inr self0, w1)"
    and "run cs (self0, w1) = (self, w)"
    and "set_log_level l self w = (r, self', w')"
  shows "file_handlers self' = file_handlers self \<and>
    (\<forall>p\<in>set (file_handlers self).
       map_of (handlers w) (snd p) \<noteq> None \<and>
       map_of (handlers w') (snd p) = map_of (handlers w) (snd p)) \<and>
    filter is_file (handlers w') = filter is_file (handlers w) \<and>
    (\<forall>msg.
       files (debug self' msg w') =
         files w' @ [(file_name lp cat ''debug'' t4, entry cat ''DEBUG'' msg)] \<and>
       files (info self' msg w') =
         files w' @ [(file_name lp cat ''info'' t3, entry cat ''INFO'' msg),
                     (file_name lp cat ''debug'' t4, entry cat ''INFO'' msg)] \<and>
       files (warning self' msg w') =
         files w' @ [(file_name lp cat ''warning'' t2, entry cat ''WARNING'' msg),
                     (file_name lp cat ''info'' t3, entry cat ''WARNING'' msg),
                     (file_name lp cat ''debug'' t4, entry cat ''WARNING'' msg)] \<and>
       files (error self' msg w') =
         files w' @ [(file_name lp cat ''error'' t1, entry cat ''ERROR'' msg),
                     (file_name lp cat ''warning'' t2, entry cat ''ERROR'' msg),
                     (file_name lp cat ''info'' t3, entry cat ''ERROR'' msg),
                     (file_name lp cat ''debug'' t4, entry cat ''ERROR'' msg)])"
proof -
  let ?n = "next_id w0" and ?clock = "(t1, t2, t3, t4)"
  have m: "managed lp cat ?clock ?n self w" using reach_managed [OF assms(1,2)] .
  have m': "managed lp cat ?clock ?n self' w'"
    using set_log_level_managed [OF m, of l] assms(3) by simp
  have fh: "file_handlers self' = file_handlers self"
    using m m' by (simp add: managed_def)
  have ids: "\<forall>p\<in>set (file_handlers self).
       map_of (handlers w) (snd p) \<noteq> None \<and>
       map_of (handlers w') (snd p) = map_of (handlers w) (snd p)"
    using managed_file_ids [OF m] managed_file_ids [OF m'] fh by simp
  have sinks: "filter is_file (handlers w') = filter is_file (handlers w)"
    by (simp add: managed_file_sinks [OF m] managed_file_sinks [OF m'])
  have cat: "category self' = cat" using m' by (simp add: managed_def)
  have writes: "files (debug self' msg w') =
         files w' @ [(file_name lp cat ''debug'' t4, entry cat ''DEBUG'' msg)] \<and>
       files (info self' msg w') =
         files w' @ [(file_name lp cat ''info'' t3, entry cat ''INFO'' msg),
                     (file_name lp cat ''debug'' t4, entry cat ''INFO'' msg)] \<and>
       files (warning self' msg w') =
         files w' @ [(file_name lp cat ''warning'' t2, entry cat ''WARNING'' msg),
                     (file_name lp cat ''info'' t3, entry cat ''WARNING'' msg),
                     (file_name lp cat ''debug'' t4, entry cat ''WARNING'' msg)] \<and>
       files (error self' msg w') =
         files w' @ [(file_name lp cat ''error'' t1, entry cat ''ERROR'' msg),
                     (file_name lp cat ''warning'' t2, entry cat ''ERROR'' msg),
                     (file_name lp cat ''info'' t3, entry cat ''ERROR'' msg),
                     (file_name lp cat ''debug'' t4, entry cat ''ERROR'' msg)]" for msg
    by (simp add: debug_def info_def warning_def error_def cat managed_files [OF m'] entry_def
        Let_def)
  show ?thesis using fh ids sinks writes by blast
qed

text \<open>
  A manager at level INFO is moved to \<open>error\<close>: its file handlers are what they were, and
  a DEBUG message, no longer printed, is written to the debug file.
\<close>

theorem set_log_level_keeps_file_handlers_witness:
  "case LogManager_init ''./logs/'' ''INFO'' ''default'' (a_day, a_day, a_day, a_day) fresh_world of
     (Inl e, w1) \<Rightarrow> False
   | (Inr self0, w1) \<Rightarrow>
       (case run [Info (Text ''started'')] (self0, w1) of
          (self, w) \<Rightarrow>
            (case set_log_level ''error'' self w of
               (r, self', w') \<Rightarrow>
                 file_handlers self' = file_handlers self \<and>
                 filter is_file (handlers w') = filter is_file (handlers w) \<and>
                 files (debug self' (Text ''detail'') w') =
                   files w' @
                     [(file_name ''./logs/'' ''default'' ''debug'' a_day,
                       entry ''default'' ''DEBUG'' (Text ''detail''))]))"
proof -
  have v: "upper ''INFO'' \<in> set VALID_LEVELS" by (simp add: upper_valid valid_levels_mem)
  obtain self0 w1 where h1:
    "LogManager_init ''./logs/'' ''INFO'' ''default'' (a_day, a_day, a_day, a_day) fresh_world
       = (Inr self0, w1)"
    using init_succeeds [OF v, of "''./logs/''" "''default''" "(a_day, a_day, a_day, a_day)" fresh_world]
    by auto
  obtain self w where h2: "run [Info (Text ''started'')] (self0, w1) = (self, w)"
    by (cases "run [Info (Text ''started'')] (self0, w1)") auto
  obtain r self' w' where h3: "set_log_level ''error'' self w = (r, self', w')"
    by (cases "set_log_level ''error'' self w") auto
  note t = set_log_level_keeps_file_handlers [OF h1 h2 h3]
  show ?thesis using t by (simp add: h1 h2 h3)
qed

text \<open>
  C8. In a state reached by constructing a manager with category \<open>cat\<close> and calling its
  methods, the handlers of the logger are exactly the manager's four file handlers and
  its console handler; each of them filters on the category \<open>cat\<close> and accepts no record
  bound to another category or to none, so that emitting such a record writes nothing;
  and the \<open>debug\<close>, \<open>info\<close>, \<open>warning\<close> and \<open>error\<close> methods emit records bound to
  \<open>cat\<close>.
\<close>

theorem sinks_filter_by_category:
  assumes "LogManager_init lp rm cat clock w0 = (Inr self0, w1)"
    and "run cs (self0, w1) = (self, w)"
  shows "category self = cat \<and>
    fst ` set (handlers w) =
      snd ` set (file_handlers self) \<union> set_option (console_handler_id self) \<and>
    (\<forall>p\<in>set (handlers w). h_filter_category (snd p) = Some cat) \<and>
    (\<forall>p\<in>set (handlers w). \<forall>rec. r_extra_category rec \<noteq> Some cat \<longrightarrow> \<not> accepts (snd p) rec) \<and>
    (\<forall>rec. r_extra_category rec \<noteq> Some cat \<longrightarrow> emit rec w = w) \<and>
    (\<forall>msg. debug self msg w = emit (entry cat ''DEBUG'' msg) w \<and>
           info self msg w = emit (entry cat ''INFO'' msg) w \<and>
           warning self msg w = emit (entry cat ''WARNING'' msg) w \<and>
           error self msg w = emit (entry cat ''ERROR'' msg) w)"
proof -
  have m: "managed lp cat clock (next_id w0) self w" using reach_managed [OF assms] .
  have cat: "category self = cat" using m by (simp add: managed_def)
  have flt: "\<forall>p\<in>set (handlers w). h_filter_category (snd p) = Some cat"
    using managed_filters [OF m] by blast
  have rej: "\<forall>p\<in>set (handlers w). \<forall>rec. r_extra_category rec \<noteq> Some cat \<longrightarrow> \<not> accepts (snd p) rec"
    using flt by (auto simp: accepts_def split: option.splits)
  have silent: "\<forall>rec. r_extra_category rec \<noteq> Some cat \<longrightarrow> emit rec w = w"
    using rej by (simp add: emit_def fold_deliver_none)
  have meth: "\<forall>msg. debug self msg w = emit (entry cat ''DEBUG'' msg) w \<and>
           info self msg w = emit (entry cat ''INFO'' msg) w \<and>
           warning self msg w = emit (entry cat ''WARNING'' msg) w \<and>
           error self msg w = emit (entry cat ''ERROR'' msg) w"
    by (simp add: debug_def info_def warning_def error_def bind_log_def entry_def cat)
  show ?thesis using cat managed_ids [OF m] flt rej silent meth by blast
qed


text \<open>
  For a manager of category \<open>default\<close>: an ERROR record bound to the category \<open>other\<close>
  leaves the world as it is, and the \<open>error\<close> method emits a record bound to \<open>default\<close>.
\<close>

theorem sinks_filter_by_category_witness:
  "case LogManager_init ''./logs/'' ''INFO'' ''default'' (a_day, a_day, a_day, a_day) fresh_world of
     (Inl e, w1) \<Rightarrow> False
   | (Inr self0, w1) \<Rightarrow>
       (case run [SetLogLevel ''DEBUG''] (self0, w1) of
          (self, w) \<Rightarrow>
            category self = ''default'' \<and>
            emit (entry ''other'' ''ERROR'' (Text ''foreign'')) w = w \<and>
            error self (Text ''own'') w = emit (entry ''default'' ''ERROR'' (Text ''own'')) w)"
proof -
  have v: "upper ''INFO'' \<in> set VALID_LEVELS" by (simp add: upper_valid valid_levels_mem)
  obtain self0 w1 where h1:
    "LogManager_init ''./logs/'' ''INFO'' ''default'' (a_day, a_day, a_day, a_day) fresh_world
       = (Inr self0, w1)"
    using init_succeeds [OF v, of "''./logs/''" "''default''" "(a_day, a_day, a_day, a_day)" fresh_world]
    by auto
  obtain self w where h2: "run [SetLogLevel ''DEBUG''] (self0, w1) = (self, w)"
    by (cases "run [SetLogLevel ''DEBUG''] (self0, w1)") auto
  note t = sinks_filter_by_category [OF h1 h2]
  have "r_extra_category (entry ''other'' ''ERROR'' (Text ''foreign'')) \<noteq> Some ''default''"
    by (simp add: entry_def)
  then have "emit (entry ''other'' ''ERROR'' (Text ''foreign'')) w = w" using t by blast
  then show ?thesis using t by (simp add: h1 h2)
qed


text \<open>
  C10. \<open>set_log_level\<close> and the constructor raise \<open>ValueError\<close> for every level string
  whose upper-case form is not among the valid levels, the constructor whatever its other
  arguments; the lower-case spellings of the valid levels are accepted by both: the
  constructor never answers them with \<open>ValueError\<close> and builds the manager when the log
  path is not empty. In a state reached by constructing a manager and calling its methods,
  \<open>set_log_level\<close> raises for no other reason, and when it raises, the manager and the
  world, handlers included, are what they were before the call.
\<close>

theorem invalid_level_raises_ValueError:
  assumes "LogManager_init lp rm cat clock w0 = (Inr self0, w1)"
    and "run cs (self0, w1) = (self, w)"
  shows "(\<forall>l. upper l \<notin> set VALID_LEVELS \<longrightarrow>
            set_log_level l self w = (Inl ValueError, self, w)) \<and>
    (\<forall>l e self' w'. set_log_level l self w = (Inl e, self', w') \<longrightarrow>
            e = ValueError \<and> upper l \<notin> set VALID_LEVELS \<and> self' = self \<and> w' = w) \<and>
    (\<forall>l\<in>set [''debug'', ''info'', ''warning'', ''error''].
            fst (set_log_level l self w) = Inr ()) \<and>
    (\<forall>l lp' cat' clock' w''. upper l \<notin> set VALID_LEVELS \<longrightarrow>
            LogManager_init lp' l cat' clock' w'' = (Inl ValueError, w'')) \<and>
    (\<forall>l\<in>set [''debug'', ''info'', ''warning'', ''error'']. \<forall>lp' cat' clock' w''.
            fst (LogManager_init lp' l cat' clock' w'') \<noteq> Inl ValueError \<and>
            (lp' \<noteq> [] \<longrightarrow> (\<exists>s w3. LogManager_init lp' l cat' clock' w'' = (Inr s, w3))))"
proof -
  have m: "managed lp cat clock (next_id w0) self w" using reach_managed [OF assms] .
  have a: "\<forall>l. upper l \<notin> set VALID_LEVELS \<longrightarrow>
            set_log_level l self w = (Inl ValueError, self, w)"
    by (simp add: set_log_level_invalid)
  have b: "\<forall>l e self' w'. set_log_level l self w = (Inl e, self', w') \<longrightarrow>
            e = ValueError \<and> upper l \<notin> set VALID_LEVELS \<and> self' = self \<and> w' = w"
  proof (intro allI impI)
    fix l e self' w'
    assume r: "set_log_level l self w = (Inl e, self', w')"
    have "upper l \<notin> set VALID_LEVELS"
    proof
      assume "upper l \<in> set VALID_LEVELS"
      from set_log_level_returns [OF m this] r show False by simp
    qed
    then show "e = ValueError \<and> upper l \<notin> set VALID_LEVELS \<and> self' = self \<and> w' = w"
      using r by (simp add: set_log_level_invalid)
  qed
  have c: "\<forall>l\<in>set [''debug'', ''info'', ''warning'', ''error''].
            fst (set_log_level l self w) = Inr ()"
    using set_log_level_returns [OF m] lowercase_valid by blast
  have d: "\<forall>l lp' cat' clock' w''. upper l \<notin> set VALID_LEVELS \<longrightarrow>
            LogManager_init lp' l cat' clock' w'' = (Inl ValueError, w'')"
    by (simp add: init_invalid)
  have e: "\<forall>l\<in>set [''debug'', ''info'', ''warning'', ''error'']. \<forall>lp' cat' clock' w''.
            fst (LogManager_init lp' l cat' clock' w'') \<noteq> Inl ValueError \<and>
            (lp' \<noteq> [] \<longrightarrow> (\<exists>s w3. LogManager_init lp' l cat' clock' w'' = (Inr s, w3)))"
    using init_no_ValueError init_succeeds lowercase_valid by blast
  show ?thesis using a b c d e by blast
qed

text \<open>
  The level \<open>verbose\<close> is refused by \<open>set_log_level\<close>, which leaves the state alone, and
  by the constructor; the spelling \<open>error\<close> is accepted.
\<close>

theorem invalid_level_raises_ValueError_witness:
  "case LogManager_init ''./logs/'' ''warning'' ''default'' (a_day, a_day, a_day, a_day) fresh_world of
     (Inl e, w1) \<Rightarrow> False
   | (Inr self0, w1) \<Rightarrow>
       (case run [SetLogLevel ''debug''] (self0, w1) of
          (self, w) \<Rightarrow>
            upper ''verbose'' \<notin> set VALID_LEVELS \<and>
            set_log_level ''verbose'' self w = (Inl ValueError, self, w) \<and>
            fst (set_log_level ''error'' self w) = Inr () \<and>
            LogManager_init ''./logs/'' ''verbose'' ''default'' (a_day, a_day, a_day, a_day)
              fresh_world = (Inl ValueError, fresh_world))"
proof -
  have v: "upper ''warning'' \<in> set VALID_LEVELS" by (simp add: upper_lowercase valid_levels_mem)
  obtain self0 w1 where h1:
    "LogManager_init ''./logs/'' ''warning'' ''default'' (a_day, a_day, a_day, a_day) fresh_world
       = (Inr self0, w1)"
    using init_succeeds [OF v, of "''./logs/''" "''default''" "(a_day, a_day, a_day, a_day)" fresh_world]
    by auto
  obtain self w where h2: "run [SetLogLevel ''debug''] (self0, w1) = (self, w)"
    by (cases "run [SetLogLevel ''debug''] (self0, w1)") auto
  have n: "upper ''verbose'' \<notin> set VALID_LEVELS"
    by (simp add: upper_def upper_char_def VALID_LEVELS_def)
  note t = invalid_level_raises_ValueError [OF h1 h2]
  have a: "set_log_level ''verbose'' self w = (Inl ValueError, self, w)" using t n by blast
  have b: "fst (set_log_level ''error'' self w) = Inr ()" using t by simp
  have c: "LogManager_init ''./logs/'' ''verbose'' ''default'' (a_day, a_day, a_day, a_day)
              fresh_world = (Inl ValueError, fresh_world)" using t n by blast
  show ?thesis using n a b c by (simp add: h1 h2)
qed

end
